theory Spec2Isabelle
  imports Complex_Main
begin

section \<open>The Explore_Data notebook: values, exceptions, kernel namespace\<close>

text \<open>
  The program is the notebook \<^verbatim>\<open>hands-on/session II/2.Explore_Data.ipynb\<close>. Its code
  cells are scripts over the global namespace of one Jupyter kernel: the load cell binds
  \<^verbatim>\<open>data\<close>, \<^verbatim>\<open>actual_data\<close> and \<^verbatim>\<open>metadata\<close>, and the three Challenge cells read them,
  draw a figure and print. Each cell is a \<^verbatim>\<open>try: ... except Exception as e: print(...)\<close>.

  A cell is modelled as a function from the kernel state to the exception that leaves the
  cell (if any) and the kernel state it leaves behind. Text is ASCII. Arrays hold finite
  float64 numbers, written as the real numbers they denote; the results of float64
  arithmetic are rounded to nearest-even, overflow to an infinity, and can be \<open>NaN\<close>.
  Signed zeros are not told apart.
\<close>

subsection \<open>Python exceptions and their \<^verbatim>\<open>str()\<close>\<close>

text \<open>
  \<open>OSError m\<close> stands for any \<^verbatim>\<open>OSError\<close> (\<^verbatim>\<open>FileNotFoundError\<close>, a name that is too
  long, a directory, ...) and carries the text \<open>m\<close> that \<^verbatim>\<open>str(e)\<close> gives.
\<close>

datatype exn =
    OSError string
  | KeyError string
  | NameError string
  | IndexError string
  | ValueError string
  | ZeroDivisionError string

definition quote :: string where
  "quote = [CHR 0x27]"

definition backslash :: string where
  "backslash = [CHR 0x5C]"

text \<open>
  \<^verbatim>\<open>repr\<close> of a Python string: double quotes are chosen when the string holds a single
  quote and no double quote; the chosen quote and the backslash are escaped, newline,
  carriage return and tab are written \<^verbatim>\<open>\n\<close>, \<^verbatim>\<open>\r\<close>, \<^verbatim>\<open>\t\<close>, and every other
  control character is written \<^verbatim>\<open>\xhh\<close> with two lower-case hexadecimal digits.
\<close>

definition hex_digit :: "nat \<Rightarrow> char" where
  "hex_digit n = (if n < 10 then char_of (48 + n) else char_of (87 + n))"

definition repr_char :: "char \<Rightarrow> char \<Rightarrow> string" where
  "repr_char q c =
     (if c = CHR 0x5C then backslash @ backslash
      else if c = q then backslash @ [q]
      else if c = CHR 0x0A then backslash @ ''n''
      else if c = CHR 0x0D then backslash @ ''r''
      else if c = CHR 0x09 then backslash @ ''t''
      else if (of_char c :: nat) < 32 \<or> (of_char c :: nat) = 127
        then backslash @ ''x'' @ [hex_digit (of_char c div 16), hex_digit (of_char c mod 16)]
      else [c])"

definition py_repr :: "string \<Rightarrow> string" where
  "py_repr s =
     (let q = (if CHR 0x27 \<in> set s \<and> CHR 0x22 \<notin> set s then CHR 0x22 else CHR 0x27)
      in [q] @ concat (map (repr_char q) s) @ [q])"

text \<open>
  \<^verbatim>\<open>str(e)\<close>: a \<^verbatim>\<open>KeyError\<close> prints the repr of its argument; a \<^verbatim>\<open>NameError\<close> names the
  variable; the others print their message.
\<close>

fun str_exn :: "exn \<Rightarrow> string" where
  "str_exn (OSError m) = m"
| "str_exn (KeyError m) = py_repr m"
| "str_exn (NameError n) = ''name '' @ quote @ n @ quote @ '' is not defined''"
| "str_exn (IndexError m) = m"
| "str_exn (ValueError m) = m"
| "str_exn (ZeroDivisionError m) = m"

subsection \<open>float64 arithmetic\<close>

text \<open>
  A float64 result is a finite number, an infinity or \<open>NaN\<close>. \<open>fl x\<close> is the float64
  nearest the real number \<open>x\<close>: \<open>x\<close> is rounded to a multiple of the unit in its last
  place (53 significant bits, smallest unit \<open>2 powi - 1074\<close>), ties go to the even multiple,
  and a result beyond the largest float64 becomes an infinity.
\<close>

datatype pyfloat = Num real | PInf | NInf | NaN

definition max_float :: real where
  "max_float = (2 ^ 53 - 1) * 2 ^ 971"

definition round_half_even :: "real \<Rightarrow> int" where
  "round_half_even q =
     (let f = \<lfloor>q\<rfloor>; d = q - of_int f
      in if d < 1 / 2 then f else if 1 / 2 < d then f + 1 else if even f then f else f + 1)"

definition ulp_exponent :: "real \<Rightarrow> int" where
  "ulp_exponent x = max (\<lfloor>log 2 \<bar>x\<bar>\<rfloor> - 52) (- 1074)"

definition round64 :: "real \<Rightarrow> real" where
  "round64 x =
     (if x = 0 then 0
      else of_int (round_half_even (x / 2 powi ulp_exponent x)) * 2 powi ulp_exponent x)"

definition fl :: "real \<Rightarrow> pyfloat" where
  "fl x =
     (let r = round64 x
      in if max_float < r then PInf else if r < - max_float then NInf else Num r)"

definition is_finite :: "pyfloat \<Rightarrow> bool" where
  "is_finite x = (case x of Num r \<Rightarrow> True | PInf \<Rightarrow> False | NInf \<Rightarrow> False | NaN \<Rightarrow> False)"


definition fneg :: "pyfloat \<Rightarrow> pyfloat" where
  "fneg x = (case x of Num r \<Rightarrow> Num (- r) | PInf \<Rightarrow> NInf | NInf \<Rightarrow> PInf | NaN \<Rightarrow> NaN)"

text \<open>Addition: \<open>NaN\<close> is contagious and the sum of opposite infinities is \<open>NaN\<close>.\<close>

definition fadd :: "pyfloat \<Rightarrow> pyfloat \<Rightarrow> pyfloat" where
  "fadd x y =
     (case x of
        NaN \<Rightarrow> NaN
      | PInf \<Rightarrow> (case y of NaN \<Rightarrow> NaN | NInf \<Rightarrow> NaN | PInf \<Rightarrow> PInf | Num b \<Rightarrow> PInf)
      | NInf \<Rightarrow> (case y of NaN \<Rightarrow> NaN | PInf \<Rightarrow> NaN | NInf \<Rightarrow> NInf | Num b \<Rightarrow> NInf)
      | Num a \<Rightarrow> (case y of NaN \<Rightarrow> NaN | PInf \<Rightarrow> PInf | NInf \<Rightarrow> NInf | Num b \<Rightarrow> fl (a + b)))"

definition fsub :: "pyfloat \<Rightarrow> pyfloat \<Rightarrow> pyfloat" where
  "fsub x y = fadd x (fneg y)"

text \<open>Multiplication: an infinity times zero is \<open>NaN\<close>, otherwise the signs multiply.\<close>

definition inf_times :: "bool \<Rightarrow> pyfloat \<Rightarrow> pyfloat" where
  "inf_times positive y =
     (case y of
        NaN \<Rightarrow> NaN
      | PInf \<Rightarrow> (if positive then PInf else NInf)
      | NInf \<Rightarrow> (if positive then NInf else PInf)
      | Num b \<Rightarrow> (if b = 0 then NaN else if (0 < b) = positive then PInf else NInf))"

definition fmul :: "pyfloat \<Rightarrow> pyfloat \<Rightarrow> pyfloat" where
  "fmul x y =
     (case x of
        NaN \<Rightarrow> NaN
      | PInf \<Rightarrow> inf_times True y
      | NInf \<Rightarrow> inf_times False y
      | Num a \<Rightarrow>
          (case y of
             NaN \<Rightarrow> NaN
           | PInf \<Rightarrow> inf_times True (Num a)
           | NInf \<Rightarrow> inf_times False (Num a)
           | Num b \<Rightarrow> fl (a * b)))"

text \<open>Division by a positive count (an array size, or the number of steps).\<close>

definition fdiv_count :: "pyfloat \<Rightarrow> nat \<Rightarrow> pyfloat" where
  "fdiv_count x n = (case x of Num a \<Rightarrow> fl (a / real n) | PInf \<Rightarrow> PInf | NInf \<Rightarrow> NInf | NaN \<Rightarrow> NaN)"

definition fsqrt :: "pyfloat \<Rightarrow> pyfloat" where
  "fsqrt x =
     (case x of
        Num a \<Rightarrow> (if a < 0 then NaN else fl (sqrt a))
      | PInf \<Rightarrow> PInf
      | NInf \<Rightarrow> NaN
      | NaN \<Rightarrow> NaN)"

subsection \<open>Arrays, archives and the file system\<close>

text \<open>
  A two-dimensional C-contiguous \<^verbatim>\<open>numpy.ndarray\<close> of dtype float64: its shape and its
  elements in row-major order. The elements are finite; arrays that hold \<open>NaN\<close> or an
  infinity are not represented.
\<close>

record ndarray =
  shape0 :: nat
  shape1 :: nat
  flat :: "real list"

text \<open>
  The file system is a parameter of the load cell. For a path it answers what opening
  the path gives: the exception that \<^verbatim>\<open>open\<close> raises (no such file, name too long, an
  embedded null character, ...), or the file found there. A file is an \<^verbatim>\<open>.npz\<close> archive of
  named arrays, an \<^verbatim>\<open>.npy\<close> file holding one array, or content that \<^verbatim>\<open>np.load\<close> cannot
  read (with the exception it raises).
\<close>

type_synonym npz = "string \<rightharpoonup> ndarray"

datatype disk_file = NpzFile npz | NpyFile ndarray | Unreadable exn

type_synonym filesystem = "string \<Rightarrow> exn + disk_file"

text \<open>What \<^verbatim>\<open>np.load\<close> returns: a lazy archive object, or an array.\<close>

datatype loaded = Archive npz | Array ndarray

definition np_load :: "filesystem \<Rightarrow> string \<Rightarrow> exn + loaded" where
  "np_load fs p =
     (case fs p of
        Inl e \<Rightarrow> Inl e
      | Inr (Unreadable e) \<Rightarrow> Inl e
      | Inr (NpzFile z) \<Rightarrow> Inr (Archive z)
      | Inr (NpyFile a) \<Rightarrow> Inr (Array a))"

text \<open>\<^verbatim>\<open>NpzFile.__getitem__\<close>: a missing member raises \<^verbatim>\<open>KeyError\<close> naming the key.\<close>

definition npz_getitem :: "npz \<Rightarrow> string \<Rightarrow> exn + ndarray" where
  "npz_getitem z key =
     (case z key of
        None \<Rightarrow> Inl (KeyError (key @ '' is not a file in the archive''))
      | Some a \<Rightarrow> Inr a)"

text \<open>
  \<^verbatim>\<open>data["..."]\<close> on what \<^verbatim>\<open>np.load\<close> returned: a member of the archive, or, on an array,
  the \<^verbatim>\<open>IndexError\<close> numpy raises for a string index.
\<close>

definition getitem_str :: "loaded \<Rightarrow> string \<Rightarrow> exn + ndarray" where
  "getitem_str d key =
     (case d of
        Archive z \<Rightarrow> npz_getitem z key
      | Array a \<Rightarrow> Inl (IndexError
          (''only integers, slices (`:`), ellipsis (`...`), numpy.newaxis (`None`) ''
           @ ''and integer or boolean arrays are valid indices'')))"

subsection \<open>Figures: what the cells pass to matplotlib\<close>

record axes_image =
  im_data :: ndarray
  im_cmap :: string
  im_vmin :: "real option"
  im_vmax :: "real option"
  im_origin :: string
  im_extent :: "real \<times> real \<times> real \<times> real"

record colorbar =
  cb_fraction :: real
  cb_pad :: real
  cb_ticks :: "pyfloat list option"

record figure =
  figsize :: "nat \<times> nat"
  xlim :: "(real \<times> real) option"
  ylim :: "(real \<times> real) option"
  title :: string
  xlabel :: string
  ylabel :: string
  image :: "axes_image option"
  cbar :: "colorbar option"
  shown :: bool

subsection \<open>The kernel state\<close>

text \<open>A printed line: literal text, or a label followed by a formatted number.\<close>

datatype line = Text string | Stat string pyfloat

text \<open>
  One field per global name of the notebook (\<open>None\<close>: the name is not bound), the lines
  printed so far, and the figure. The names \<^verbatim>\<open>fig\<close>, \<^verbatim>\<open>axs\<close>, \<^verbatim>\<open>data_fig\<close> and \<^verbatim>\<open>cbar\<close>
  refer to parts of one matplotlib figure and are kept together in \<open>fig\<close>.
\<close>

record kernel =
  data_file :: "string option"
  data :: "loaded option"
  actual_data :: "ndarray option"
  metadata :: "ndarray option"
  cmap_instance :: "string option"
  lat_min :: "real option"
  lat_max :: "real option"
  lon_min :: "real option"
  lon_max :: "real option"
  vmin :: "real option"
  vmax :: "real option"
  fixed_vmin :: "real option"
  fixed_vmax :: "real option"
  fig :: "figure option"
  cbar_ticks :: "pyfloat list option"
  max_slope :: "real option"
  min_slope :: "real option"
  avg_slope :: "pyfloat option"
  std_slope :: "pyfloat option"
  stdout :: "line list"

text \<open>The namespace of a kernel that has run nothing yet.\<close>

definition fresh_kernel :: kernel where
  "fresh_kernel =
     \<lparr>data_file = None, data = None, actual_data = None, metadata = None,
      cmap_instance = None, lat_min = None, lat_max = None, lon_min = None,
      lon_max = None, vmin = None, vmax = None, fixed_vmin = None, fixed_vmax = None,
      fig = None, cbar_ticks = None, max_slope = None, min_slope = None,
      avg_slope = None, std_slope = None, stdout = []\<rparr>"

subsection \<open>Statements, blocks and \<^verbatim>\<open>try\<close>/\<^verbatim>\<open>except\<close>\<close>

text \<open>
  A statement maps the kernel state to the exception it raises (if any) and the state
  it reaches. An assignment whose right-hand side raises leaves the state as it was.
\<close>

type_synonym stmt = "kernel \<Rightarrow> exn option \<times> kernel"

definition name :: "string \<Rightarrow> 'a option \<Rightarrow> exn + 'a" where
  "name n v = (case v of None \<Rightarrow> Inl (NameError n) | Some x \<Rightarrow> Inr x)"

definition bindE :: "exn + 'a \<Rightarrow> ('a \<Rightarrow> exn + 'b) \<Rightarrow> exn + 'b" where
  "bindE r f = (case r of Inl e \<Rightarrow> Inl e | Inr x \<Rightarrow> f x)"

definition assign :: "(kernel \<Rightarrow> exn + 'a) \<Rightarrow> ('a \<Rightarrow> kernel \<Rightarrow> kernel) \<Rightarrow> stmt" where
  "assign rhs upd k =
     (case rhs k of Inl e \<Rightarrow> (Some e, k) | Inr v \<Rightarrow> (None, upd v k))"

definition print :: "line \<Rightarrow> stmt" where
  "print l k = (None, k\<lparr>stdout := stdout k @ [l]\<rparr>)"

fun block :: "stmt list \<Rightarrow> stmt" where
  "block [] k = (None, k)"
| "block (s # ss) k =
     (case s k of (Some e, k') \<Rightarrow> (Some e, k') | (None, k') \<Rightarrow> block ss k')"

definition try_except :: "stmt \<Rightarrow> (exn \<Rightarrow> stmt) \<Rightarrow> stmt" where
  "try_except body handler k =
     (case body k of (Some e, k') \<Rightarrow> handler e k' | (None, k') \<Rightarrow> (None, k'))"

text \<open>
  The handler every cell shares:
  \<^verbatim>\<open>print(f"Error: Failed to load or process data from '{data_file}'. {str(e)}")\<close>.
  It reads the global \<^verbatim>\<open>data_file\<close>; when that name is unbound the handler itself raises
  and the exception leaves the cell.
\<close>

definition error_message :: "string \<Rightarrow> exn \<Rightarrow> string" where
  "error_message p e =
     ''Error: Failed to load or process data from '' @ quote @ p @ quote @ ''. '' @ str_exn e"

definition report :: "exn \<Rightarrow> stmt" where
  "report e k =
     (case name ''data_file'' (data_file k) of
        Inl e' \<Rightarrow> (Some e', k)
      | Inr p \<Rightarrow> print (Text (error_message p e)) k)"

section \<open>The load cell\<close>

text \<open>
  \<^verbatim>\<open>
  try:
      data = np.load(data_file)
      actual_data = data["data"]
      metadata = data["lon_lat"]
      print("You have successfully loaded your data and metadata.")
  except Exception as e:
      print(f"Error: Failed to load or process data from '{data_file}'. {str(e)}")
  \<close>
\<close>

definition load_body :: "filesystem \<Rightarrow> stmt" where
  "load_body fs = block
     [assign (\<lambda>k. bindE (name ''data_file'' (data_file k)) (np_load fs))
             (\<lambda>v k. k\<lparr>data := Some v\<rparr>),
      assign (\<lambda>k. bindE (name ''data'' (data k)) (\<lambda>d. getitem_str d ''data''))
             (\<lambda>v k. k\<lparr>actual_data := Some v\<rparr>),
      assign (\<lambda>k. bindE (name ''data'' (data k)) (\<lambda>d. getitem_str d ''lon_lat''))
             (\<lambda>v k. k\<lparr>metadata := Some v\<rparr>),
      print (Text ''You have successfully loaded your data and metadata.'')]"

definition load :: "filesystem \<Rightarrow> stmt" where
  "load fs = try_except (load_body fs) report"

section \<open>The numpy operations the cells call\<close>

fun str_nat :: "nat \<Rightarrow> string" where
  "str_nat n =
     (if n < 10 then [char_of (48 + n)] else str_nat (n div 10) @ [char_of (48 + n mod 10)])"

text \<open>
  \<^verbatim>\<open>a[i][j]\<close> on a two-dimensional array: \<^verbatim>\<open>a[i]\<close> is row \<open>i\<close>, and an index beyond the
  axis raises \<^verbatim>\<open>IndexError\<close>. The cells only use the literal indices 0 and 1. An array
  holds \<open>shape0 * shape1\<close> elements.
\<close>

definition valid_array :: "ndarray \<Rightarrow> bool" where
  "valid_array a = (length (flat a) = shape0 a * shape1 a)"

definition index_error :: "nat \<Rightarrow> nat \<Rightarrow> nat \<Rightarrow> exn" where
  "index_error i axis n =
     IndexError (''index '' @ str_nat i @ '' is out of bounds for axis '' @ str_nat axis
       @ '' with size '' @ str_nat n)"

definition getitem2 :: "ndarray \<Rightarrow> nat \<Rightarrow> nat \<Rightarrow> exn + real" where
  "getitem2 a i j =
     (if shape0 a \<le> i then Inl (index_error i 0 (shape0 a))
      else if shape1 a \<le> j then Inl (index_error j 0 (shape1 a))
      else Inr (flat a ! (i * shape1 a + j)))"

text \<open>
  \<^verbatim>\<open>a.min()\<close> and \<^verbatim>\<open>a.max()\<close> reduce over all elements and raise \<^verbatim>\<open>ValueError\<close> on an
  array without elements.
\<close>

definition np_min :: "ndarray \<Rightarrow> exn + real" where
  "np_min a =
     (case flat a of
        [] \<Rightarrow> Inl (ValueError
          ''zero-size array to reduction operation minimum which has no identity'')
      | x # xs \<Rightarrow> Inr (fold min xs x))"

definition np_max :: "ndarray \<Rightarrow> exn + real" where
  "np_max a =
     (case flat a of
        [] \<Rightarrow> Inl (ValueError
          ''zero-size array to reduction operation maximum which has no identity'')
      | x # xs \<Rightarrow> Inr (fold max xs x))"

text \<open>
  numpy adds float64 numbers with its pairwise summation routine. Fewer than 8 numbers are
  added one after the other, starting from zero. Up to 128 numbers are added into 8
  running sums, block by block of 8; the running sums are combined as
  \<open>((r0 + r1) + (r2 + r3)) + ((r4 + r5) + (r6 + r7))\<close> and the numbers left over are added
  one after the other. A longer list is cut at half its length, rounded down to a multiple
  of 8, and the sums of the two parts are added. The reduction adds the result to its
  initial value zero. Every addition rounds.
\<close>

fun accumulate8 :: "pyfloat list \<Rightarrow> pyfloat list \<Rightarrow> pyfloat list \<times> pyfloat list" where
  "accumulate8 r a =
     (if length a < 8 then (r, a)
      else accumulate8 (map2 fadd r (take 8 a)) (drop 8 a))"

declare accumulate8.simps [simp del]

function pairwise_sum :: "pyfloat list \<Rightarrow> pyfloat" where
  "pairwise_sum a =
     (if length a < 8 then foldl fadd (Num 0) a
      else if length a \<le> 128 then
        (case accumulate8 (take 8 a) (drop 8 a) of
           (r, rest) \<Rightarrow>
             foldl fadd
               (fadd (fadd (fadd (r ! 0) (r ! 1)) (fadd (r ! 2) (r ! 3)))
                     (fadd (fadd (r ! 4) (r ! 5)) (fadd (r ! 6) (r ! 7))))
               rest)
      else
        (let n2 = length a div 2 - length a div 2 mod 8
         in fadd (pairwise_sum (take n2 a)) (pairwise_sum (drop n2 a))))"
  by pat_completeness auto
termination
  by (relation "measure length") auto

declare pairwise_sum.simps [simp del]

definition umr_sum :: "pyfloat list \<Rightarrow> pyfloat" where
  "umr_sum a = fadd (Num 0) (pairwise_sum a)"

text \<open>
  \<^verbatim>\<open>a.mean()\<close> is the float64 sum of the elements divided by their number. \<^verbatim>\<open>a.std()\<close>
  subtracts the mean from every element, squares the differences, sums them, divides by
  the number of elements and takes the square root; every step rounds. On an array
  without elements numpy warns and returns \<open>nan\<close>; it does not raise.
\<close>

definition np_mean :: "ndarray \<Rightarrow> pyfloat" where
  "np_mean a =
     (if flat a = [] then NaN
      else fdiv_count (umr_sum (map Num (flat a))) (length (flat a)))"

definition np_std :: "ndarray \<Rightarrow> pyfloat" where
  "np_std a =
     (if flat a = [] then NaN
      else
        (let arrmean = np_mean a;
             x = map (\<lambda>v. fsub (Num v) arrmean) (flat a);
             sq = map (\<lambda>d. fmul d d) x
         in fsqrt (fdiv_count (umr_sum sq) (length (flat a)))))"

text \<open>
  \<^verbatim>\<open>np.linspace(start, stop, num)\<close> with the default \<^verbatim>\<open>endpoint=True\<close>, in float64:
  \<open>delta = stop - start\<close> and \<open>step = delta / (num - 1)\<close>; sample \<open>i\<close> is
  \<open>i * step + start\<close>, or \<open>(i / (num - 1)) * delta + start\<close> when the step is zero; and
  for \<open>num > 1\<close> the last sample is overwritten with \<open>stop\<close> itself.
\<close>

definition linspace :: "real \<Rightarrow> real \<Rightarrow> nat \<Rightarrow> pyfloat list" where
  "linspace start stop num =
     (let d = num - 1;
          delta = fsub (Num stop) (Num start);
          y = (if 0 < d then
                 (let step = fdiv_count delta d
                  in map (\<lambda>i. fadd (if step = Num 0
                                      then fmul (fdiv_count (Num (real i)) d) delta
                                      else fmul (Num (real i)) step)
                                     (Num start)) [0..<num])
               else map (\<lambda>i. fadd (fmul (Num (real i)) delta) (Num start)) [0..<num])
      in if 1 < num then y[num - 1 := Num stop] else y)"

text \<open>
  The colorbar width \<^verbatim>\<open>0.046 * actual_data.shape[0] / actual_data.shape[1]\<close>: the shape
  entries are Python integers, so a zero column count raises \<^verbatim>\<open>ZeroDivisionError\<close>. The
  value is kept as the number the expression denotes.
\<close>

definition cbar_fraction :: "ndarray \<Rightarrow> exn + real" where
  "cbar_fraction a =
     (if shape1 a = 0 then Inl (ZeroDivisionError ''float division by zero'')
      else Inr (0.046 * real (shape0 a) / real (shape1 a)))"

section \<open>Statements on the figure\<close>

text \<open>\<^verbatim>\<open>fig, axs = plt.subplots(1, 1, figsize=(10, 8))\<close> starts a new, empty figure.\<close>

definition new_figure :: figure where
  "new_figure =
     \<lparr>figsize = (10, 8), xlim = None, ylim = None, title = [], xlabel = [], ylabel = [],
      image = None, cbar = None, shown = False\<rparr>"

definition subplots :: stmt where
  "subplots k = (None, k\<lparr>fig := Some new_figure\<rparr>)"

text \<open>
  A method call on the figure, its axes, image or colorbar: the object's name is looked
  up, then the arguments are evaluated, then the call changes the figure.
\<close>

definition call_fig :: "string \<Rightarrow> (kernel \<Rightarrow> exn + 'a) \<Rightarrow> ('a \<Rightarrow> figure \<Rightarrow> figure) \<Rightarrow> stmt" where
  "call_fig obj args upd k =
     (case name obj (fig k) of
        Inl e \<Rightarrow> (Some e, k)
      | Inr f \<Rightarrow>
          (case args k of
             Inl e \<Rightarrow> (Some e, k)
           | Inr v \<Rightarrow> (None, k\<lparr>fig := Some (upd v f)\<rparr>)))"

text \<open>\<^verbatim>\<open>(lat_min, lat_max)\<close> and \<^verbatim>\<open>(lon_min, lon_max)\<close>, read from the namespace.\<close>

definition lat_pair :: "kernel \<Rightarrow> exn + real \<times> real" where
  "lat_pair k =
     bindE (name ''lat_min'' (lat_min k)) (\<lambda>a.
     bindE (name ''lat_max'' (lat_max k)) (\<lambda>b. Inr (a, b)))"

definition lon_pair :: "kernel \<Rightarrow> exn + real \<times> real" where
  "lon_pair k =
     bindE (name ''lon_min'' (lon_min k)) (\<lambda>a.
     bindE (name ''lon_max'' (lon_max k)) (\<lambda>b. Inr (a, b)))"

text \<open>
  \<^verbatim>\<open>axs.imshow(actual_data, cmap=cmap_instance, [vmin=..., vmax=...,] origin="lower",
  extent=(lat_min, lat_max, lon_min, lon_max))\<close>. The argument \<open>clim\<close> evaluates the
  \<^verbatim>\<open>vmin\<close>/\<^verbatim>\<open>vmax\<close> keywords of the cell (\<open>None\<close> when the cell passes none).
\<close>

definition imshow :: "(kernel \<Rightarrow> exn + (real \<times> real) option) \<Rightarrow> stmt" where
  "imshow clim =
     call_fig ''axs''
       (\<lambda>k. bindE (name ''actual_data'' (actual_data k)) (\<lambda>a.
             bindE (name ''cmap_instance'' (cmap_instance k)) (\<lambda>c.
             bindE (clim k) (\<lambda>r.
             bindE (lat_pair k) (\<lambda>(x0, x1).
             bindE (lon_pair k) (\<lambda>(y0, y1).
               Inr \<lparr>im_data = a, im_cmap = c, im_vmin = map_option fst r,
                    im_vmax = map_option snd r, im_origin = ''lower'',
                    im_extent = (x0, x1, y0, y1)\<rparr>))))))
       (\<lambda>im f. f\<lparr>image := Some im\<rparr>)"

text \<open>
  \<^verbatim>\<open>cbar = fig.colorbar(data_fig, ax=axs,
  fraction=0.046 * actual_data.shape[0] / actual_data.shape[1], pad=0.04)\<close>.

  The colour range of the image is the \<^verbatim>\<open>vmin\<close>/\<^verbatim>\<open>vmax\<close> given to \<^verbatim>\<open>imshow\<close>, or the
  least and greatest element of the data when none was given. matplotlib places the
  colorbar's limits at \<open>vmin + t * (vmax - vmin)\<close>; when \<open>vmax - vmin\<close> overflows float64
  the limits are \<open>NaN\<close> or infinite and the call raises \<^verbatim>\<open>ValueError\<close>. (The widening
  that matplotlib applies to a range with \<open>vmin = vmax\<close> is not part of the model.)
\<close>

definition norm_limits :: "axes_image \<Rightarrow> real \<times> real" where
  "norm_limits im =
     (case (im_vmin im, im_vmax im) of
        (Some lo, Some hi) \<Rightarrow> (lo, hi)
      | _ \<Rightarrow>
          (case flat (im_data im) of
             [] \<Rightarrow> (0, 1)
           | x # xs \<Rightarrow>
               (case im_vmin im of Some lo \<Rightarrow> lo | None \<Rightarrow> fold min xs x,
                case im_vmax im of Some hi \<Rightarrow> hi | None \<Rightarrow> fold max xs x)))"

definition make_colorbar :: "figure \<Rightarrow> real \<Rightarrow> exn + figure" where
  "make_colorbar f fr =
     bindE (name ''data_fig'' (image f)) (\<lambda>im.
       case norm_limits im of
         (lo, hi) \<Rightarrow>
           if is_finite (fsub (Num hi) (Num lo))
           then Inr (f\<lparr>cbar := Some \<lparr>cb_fraction = fr, cb_pad = 0.04, cb_ticks = None\<rparr>\<rparr>)
           else Inl (ValueError ''Axis limits cannot be NaN or Inf''))"

definition add_colorbar :: stmt where
  "add_colorbar k =
     (case name ''fig'' (fig k) of
        Inl e \<Rightarrow> (Some e, k)
      | Inr f \<Rightarrow>
          (case bindE (name ''data_fig'' (image f)) (\<lambda>im.
                bindE (bindE (name ''actual_data'' (actual_data k)) cbar_fraction)
                  (make_colorbar f)) of
             Inl e \<Rightarrow> (Some e, k)
           | Inr f' \<Rightarrow> (None, k\<lparr>fig := Some f'\<rparr>)))"

text \<open>\<^verbatim>\<open>cbar.set_ticks(cbar_ticks)\<close>.\<close>

definition set_ticks :: stmt where
  "set_ticks =
     call_fig ''cbar''
       (\<lambda>k. name ''cbar_ticks'' (cbar_ticks k))
       (\<lambda>ts f. f\<lparr>cbar := map_option (\<lambda>c. c\<lparr>cb_ticks := Some ts\<rparr>) (cbar f)\<rparr>)"

text \<open>\<^verbatim>\<open>plt.show()\<close> displays the open figure, if there is one.\<close>

definition show_fig :: stmt where
  "show_fig k = (None, k\<lparr>fig := map_option (\<lambda>f. f\<lparr>shown := True\<rparr>) (fig k)\<rparr>)"

section \<open>Statements the three Challenge cells repeat\<close>

text \<open>
  \<^verbatim>\<open>
  cmap_instance = plt.get_cmap("inferno")
  lat_min = metadata[0][0]  # Minimum latitude
  lat_max = metadata[0][1]  # Maximum latitude
  lon_min = metadata[1][0]  # Minimum longitude
  lon_max = metadata[1][1]  # Maximum longitude
  \<close>
\<close>

definition metadata_at :: "nat \<Rightarrow> nat \<Rightarrow> kernel \<Rightarrow> exn + real" where
  "metadata_at i j k = bindE (name ''metadata'' (metadata k)) (\<lambda>m. getitem2 m i j)"

definition read_bounds :: "stmt list" where
  "read_bounds =
     [assign (\<lambda>k. Inr ''inferno'') (\<lambda>v k. k\<lparr>cmap_instance := Some v\<rparr>),
      assign (metadata_at 0 0) (\<lambda>v k. k\<lparr>lat_min := Some v\<rparr>),
      assign (metadata_at 0 1) (\<lambda>v k. k\<lparr>lat_max := Some v\<rparr>),
      assign (metadata_at 1 0) (\<lambda>v k. k\<lparr>lon_min := Some v\<rparr>),
      assign (metadata_at 1 1) (\<lambda>v k. k\<lparr>lon_max := Some v\<rparr>)]"

text \<open>
  \<^verbatim>\<open>
  fig, axs = plt.subplots(1, 1, figsize=(10, 8))
  axs.set_xlim(lat_min, lat_max)
  axs.set_ylim(lon_min, lon_max)
  axs.set_title(...)
  axs.set_xlabel("Longitude (Degrees)")
  axs.set_ylabel("Latitude (Degrees)")
  \<close>
\<close>

definition setup_axes :: "string \<Rightarrow> stmt list" where
  "setup_axes t =
     [subplots,
      call_fig ''axs'' lat_pair (\<lambda>v f. f\<lparr>xlim := Some v\<rparr>),
      call_fig ''axs'' lon_pair (\<lambda>v f. f\<lparr>ylim := Some v\<rparr>),
      call_fig ''axs'' (\<lambda>k. Inr t) (\<lambda>v f. f\<lparr>title := v\<rparr>),
      call_fig ''axs'' (\<lambda>k. Inr ''Longitude (Degrees)'') (\<lambda>v f. f\<lparr>xlabel := v\<rparr>),
      call_fig ''axs'' (\<lambda>k. Inr ''Latitude (Degrees)'') (\<lambda>v f. f\<lparr>ylabel := v\<rparr>)]"

text \<open>
  \<^verbatim>\<open>
  max_slope = vmax  # Maximum value in the data
  min_slope = vmin  # Minimum value in the data
  avg_slope = actual_data.mean()  # Average value of the data
  std_slope = actual_data.std()  # Standard deviation of the data
  print(f"Maximum slope value: {max_slope}")
  print(f"Minimum slope value: {min_slope}")
  print(f"Average slope value: {avg_slope}")
  print(f"Standard deviation of slope values: {std_slope}")
  \<close>
  Both cells that hold these lines read the globals \<^verbatim>\<open>vmax\<close> and \<^verbatim>\<open>vmin\<close> here.
\<close>

definition print_stat :: "string \<Rightarrow> (kernel \<Rightarrow> exn + pyfloat) \<Rightarrow> stmt" where
  "print_stat label v k =
     (case v k of Inl e \<Rightarrow> (Some e, k) | Inr x \<Rightarrow> print (Stat label x) k)"

definition statistics :: "stmt list" where
  "statistics =
     [assign (\<lambda>k. name ''vmax'' (vmax k)) (\<lambda>v k. k\<lparr>max_slope := Some v\<rparr>),
      assign (\<lambda>k. name ''vmin'' (vmin k)) (\<lambda>v k. k\<lparr>min_slope := Some v\<rparr>),
      assign (\<lambda>k. bindE (name ''actual_data'' (actual_data k)) (\<lambda>a. Inr (np_mean a)))
             (\<lambda>v k. k\<lparr>avg_slope := Some v\<rparr>),
      assign (\<lambda>k. bindE (name ''actual_data'' (actual_data k)) (\<lambda>a. Inr (np_std a)))
             (\<lambda>v k. k\<lparr>std_slope := Some v\<rparr>),
      print_stat ''Maximum slope value: ''
        (\<lambda>k. bindE (name ''max_slope'' (max_slope k)) (\<lambda>v. Inr (Num v))),
      print_stat ''Minimum slope value: ''
        (\<lambda>k. bindE (name ''min_slope'' (min_slope k)) (\<lambda>v. Inr (Num v))),
      print_stat ''Average slope value: '' (\<lambda>k. name ''avg_slope'' (avg_slope k)),
      print_stat ''Standard deviation of slope values: ''
        (\<lambda>k. name ''std_slope'' (std_slope k))]"

section \<open>Challenge I: the default colour range\<close>

text \<open>
  The cell reads the bounds, sets up the axes with the title
  \<^verbatim>\<open>"Selected Subregion Of Interest (Default Range)"\<close>, calls \<^verbatim>\<open>imshow\<close> without
  \<^verbatim>\<open>vmin\<close>/\<^verbatim>\<open>vmax\<close>, adds the colorbar, prints one line and shows the plot.
\<close>

definition challenge_I_body :: stmt where
  "challenge_I_body = block
     (read_bounds
      @ setup_axes ''Selected Subregion Of Interest (Default Range)''
      @ [imshow (\<lambda>k. Inr None),
         add_colorbar,
         print (Text ''You have successfully plotted your data with the default range.''),
         show_fig])"

definition challenge_I :: stmt where
  "challenge_I = try_except challenge_I_body report"

section \<open>Challenge II: the range of the data\<close>

text \<open>
  After reading the bounds the cell prints the default-range line, then
  \<^verbatim>\<open>
  vmin = actual_data.min()
  vmax = actual_data.max()
  \<close>
  sets up the axes, calls \<^verbatim>\<open>imshow\<close> with \<^verbatim>\<open>vmin=vmin, vmax=vmax\<close>, adds the colorbar,
  \<^verbatim>\<open>
  cbar_ticks = np.linspace(vmin, vmax, 8)
  cbar.set_ticks(cbar_ticks)
  \<close>
  prints, computes and prints the statistics, and shows the plot.
\<close>

definition challenge_II_body :: stmt where
  "challenge_II_body = block
     (read_bounds
      @ [print (Text ''You have successfully plotted your data with the default range.''),
         assign (\<lambda>k. bindE (name ''actual_data'' (actual_data k)) np_min)
                (\<lambda>v k. k\<lparr>vmin := Some v\<rparr>),
         assign (\<lambda>k. bindE (name ''actual_data'' (actual_data k)) np_max)
                (\<lambda>v k. k\<lparr>vmax := Some v\<rparr>)]
      @ setup_axes ''Selected Subregion Of Interest (Min-Max Range)''
      @ [imshow (\<lambda>k. bindE (name ''vmin'' (vmin k)) (\<lambda>lo.
                       bindE (name ''vmax'' (vmax k)) (\<lambda>hi. Inr (Some (lo, hi))))),
         add_colorbar,
         assign (\<lambda>k. bindE (name ''vmin'' (vmin k)) (\<lambda>lo.
                       bindE (name ''vmax'' (vmax k)) (\<lambda>hi. Inr (linspace lo hi 8))))
                (\<lambda>v k. k\<lparr>cbar_ticks := Some v\<rparr>),
         set_ticks,
         print (Text ''You have successfully replotted your data with the min-max range.'')]
      @ statistics
      @ [show_fig])"

definition challenge_II :: stmt where
  "challenge_II = try_except challenge_II_body report"

section \<open>Challenge III: a fixed range\<close>

text \<open>
  \<^verbatim>\<open>
  fixed_vmin = 0
  fixed_vmax = 600
  \<close>
  The axes are set up, \<^verbatim>\<open>imshow\<close> is called with \<^verbatim>\<open>vmin=fixed_vmin, vmax=fixed_vmax\<close>,
  the colorbar gets the ticks \<^verbatim>\<open>np.linspace(fixed_vmin, fixed_vmax, 8)\<close>, and the
  statistics lines follow. The cell binds neither \<^verbatim>\<open>vmin\<close> nor \<^verbatim>\<open>vmax\<close>.
\<close>

definition challenge_III_body :: stmt where
  "challenge_III_body = block
     (read_bounds
      @ [assign (\<lambda>k. Inr 0) (\<lambda>v k. k\<lparr>fixed_vmin := Some v\<rparr>),
         assign (\<lambda>k. Inr 600) (\<lambda>v k. k\<lparr>fixed_vmax := Some v\<rparr>)]
      @ setup_axes ''Selected Subregion Of Interest (Range 0 to 3000)''
      @ [imshow (\<lambda>k. bindE (name ''fixed_vmin'' (fixed_vmin k)) (\<lambda>lo.
                       bindE (name ''fixed_vmax'' (fixed_vmax k)) (\<lambda>hi. Inr (Some (lo, hi))))),
         add_colorbar,
         assign (\<lambda>k. bindE (name ''fixed_vmin'' (fixed_vmin k)) (\<lambda>lo.
                       bindE (name ''fixed_vmax'' (fixed_vmax k)) (\<lambda>hi. Inr (linspace lo hi 8))))
                (\<lambda>v k. k\<lparr>cbar_ticks := Some v\<rparr>),
         set_ticks,
         print (Text ''You have successfully replotted your data with the range 0 to 3000.'')]
      @ statistics
      @ [show_fig])"

definition challenge_III :: stmt where
  "challenge_III = try_except challenge_III_body report"

section \<open>Well-formed archives\<close>

text \<open>
  A well-formed grid is a non-empty rectangle, and well-formed bounds are a 2 by 2 array
  (row 0 and row 1 each hold a minimum and a maximum). A grid has moderate values when
  every element is smaller in magnitude than \<open>2 ^ 1022\<close> (about 4.49e307), so that the
  difference of two elements is a finite float64.
\<close>

definition well_formed_grid :: "ndarray \<Rightarrow> bool" where
  "well_formed_grid a = (valid_array a \<and> 0 < shape0 a \<and> 0 < shape1 a)"

definition well_formed_bounds :: "ndarray \<Rightarrow> bool" where
  "well_formed_bounds b = (valid_array b \<and> shape0 b = 2 \<and> shape1 b = 2)"

definition moderate_values :: "ndarray \<Rightarrow> bool" where
  "moderate_values a = list_all (\<lambda>x. \<bar>x\<bar> < 2 ^ 1022) (flat a)"

section \<open>Example sessions\<close>

text \<open>
  Bounds whose row 0 is \<open>[30, 40]\<close> and row 1 is \<open>[-100, -90]\<close>; a grid whose values
  range over \<open>[12.3, 844]\<close> (the least value is written as the decimal it is given by;
  only its order relative to 844 is used); an earlier grid with range \<open>[1, 2]\<close>; the constant 4 by 4
  grid of fives; a grid of three copies of the float64 \<open>0.1\<close>, and one of three
  copies of \<open>-0.1\<close>; and the grid
  \<open>[[-1e308, 1e308]]\<close>, where \<open>1e308\<close> is the float64 \<open>5010420900022432 * 2 ^ 971\<close>.
\<close>

definition example_bounds :: ndarray where
  "example_bounds = \<lparr>shape0 = 2, shape1 = 2, flat = [30, 40, -100, -90]\<rparr>"

definition example_grid :: ndarray where
  "example_grid = \<lparr>shape0 = 1, shape1 = 2, flat = [12.3, 844]\<rparr>"

definition earlier_grid :: ndarray where
  "earlier_grid = \<lparr>shape0 = 1, shape1 = 2, flat = [1, 2]\<rparr>"

definition constant_grid :: ndarray where
  "constant_grid = \<lparr>shape0 = 4, shape1 = 4, flat = replicate 16 5\<rparr>"

definition tenth :: real where
  "tenth = 3602879701896397 / 2 ^ 55"

definition tenths_grid :: ndarray where
  "tenths_grid = \<lparr>shape0 = 1, shape1 = 3, flat = [tenth, tenth, tenth]\<rparr>"

definition minus_tenths_grid :: ndarray where
  "minus_tenths_grid = \<lparr>shape0 = 1, shape1 = 3, flat = [- tenth, - tenth, - tenth]\<rparr>"



definition f1e308 :: real where
  "f1e308 = 5010420900022432 * 2 ^ 971"

definition overflow_grid :: ndarray where
  "overflow_grid = \<lparr>shape0 = 1, shape1 = 2, flat = [- f1e308, f1e308]\<rparr>"

text \<open>
  A directory with one archive per grid, an archive without members, and nothing else:
  every other path is answered with \<^verbatim>\<open>FileNotFoundError\<close>.
\<close>

definition no_such_file :: "string \<Rightarrow> exn" where
  "no_such_file p = OSError (''[Errno 2] No such file or directory: '' @ py_repr p)"

definition archive_of :: "ndarray \<Rightarrow> disk_file" where
  "archive_of g = NpzFile [''data'' \<mapsto> g, ''lon_lat'' \<mapsto> example_bounds]"

definition example_fs :: filesystem where
  "example_fs p =
     (if p = ''earlier.npz'' then Inr (archive_of earlier_grid)
      else if p = ''subregion.npz'' then Inr (archive_of example_grid)
      else if p = ''constant.npz'' then Inr (archive_of constant_grid)
      else if p = ''tenths.npz'' then Inr (archive_of tenths_grid)
      else if p = ''minus_tenths.npz'' then Inr (archive_of minus_tenths_grid)
      else if p = ''overflow.npz'' then Inr (archive_of overflow_grid)
      else if p = ''empty.npz'' then Inr (NpzFile Map.empty)
      else Inl (no_such_file p))"

text \<open>
  \<open>session p\<close>: a new kernel in which \<^verbatim>\<open>data_file\<close> is set to \<open>p\<close> and the load cell has
  run. \<open>loaded_kernel\<close> is that session for the subregion archive.
  \<open>after_earlier_session\<close>: a new kernel that loaded the earlier archive and ran
  Challenge II on it. \<open>reloaded_kernel\<close>: that same kernel after \<^verbatim>\<open>data_file\<close> was changed
  and the load cell was run again.
\<close>

definition session :: "string \<Rightarrow> kernel" where
  "session p = snd (load example_fs (fresh_kernel\<lparr>data_file := Some p\<rparr>))"

definition loaded_kernel :: kernel where
  "loaded_kernel = snd (load example_fs (fresh_kernel\<lparr>data_file := Some ''subregion.npz''\<rparr>))"

definition after_earlier_session :: kernel where
  "after_earlier_session =
     snd (challenge_II (snd (load example_fs (fresh_kernel\<lparr>data_file := Some ''earlier.npz''\<rparr>))))"

definition reloaded_kernel :: kernel where
  "reloaded_kernel =
     snd (load example_fs (after_earlier_session\<lparr>data_file := Some ''subregion.npz''\<rparr>))"

text \<open>Whether a text occurs inside another.\<close>

fun starts_with :: "string \<Rightarrow> string \<Rightarrow> bool" where
  "starts_with [] s = True"
| "starts_with (c # cs) [] = False"
| "starts_with (c # cs) (d # ds) = (c = d \<and> starts_with cs ds)"

fun occurs_in :: "string \<Rightarrow> string \<Rightarrow> bool" where
  "occurs_in pat [] = (pat = [])"
| "occurs_in pat (c # cs) = (starts_with pat (c # cs) \<or> occurs_in pat cs)"

section \<open>Rounding to float64\<close>

lemma powr_2_int: "(2::real) powr real_of_int j = 2 powi j"
  by (simp add: powr_real_of_int')

lemma powr_2_int_Suc: "(2::real) powr (real_of_int j + 1) = 2 powi (j + 1)"
  using powr_2_int[of "j + 1"] by simp

lemma floor_log2_eq:
  assumes "2 powi k \<le> \<bar>x\<bar>" and "\<bar>x\<bar> < 2 powi (k + 1)"
  shows "\<lfloor>log 2 \<bar>x\<bar>\<rfloor> = k"
proof -
  have "0 < (2::real) powi k"
    by simp
  then have pos: "0 < \<bar>x\<bar>"
    using assms(1) by linarith
  have "2 powr real_of_int k \<le> \<bar>x\<bar> \<and> \<bar>x\<bar> < 2 powr real_of_int (k + 1)"
    using assms by (simp add: powr_2_int powr_2_int_Suc)
  then show ?thesis
    using floor_log_eq_powr_iff[of "\<bar>x\<bar>" 2 k] pos by simp
qed

lemma floor_log2_bounds:
  assumes "x \<noteq> 0"
  shows "2 powi \<lfloor>log 2 \<bar>x\<bar>\<rfloor> \<le> \<bar>x\<bar>" and "\<bar>x\<bar> < 2 powi (\<lfloor>log 2 \<bar>x\<bar>\<rfloor> + 1)"
proof -
  have pos: "0 < \<bar>x\<bar>" using assms by simp
  have "2 powr real_of_int \<lfloor>log 2 \<bar>x\<bar>\<rfloor> \<le> \<bar>x\<bar> \<and> \<bar>x\<bar> < 2 powr real_of_int (\<lfloor>log 2 \<bar>x\<bar>\<rfloor> + 1)"
    using floor_log_eq_powr_iff[of "\<bar>x\<bar>" 2 "\<lfloor>log 2 \<bar>x\<bar>\<rfloor>"] pos by simp
  then show "2 powi \<lfloor>log 2 \<bar>x\<bar>\<rfloor> \<le> \<bar>x\<bar>" and "\<bar>x\<bar> < 2 powi (\<lfloor>log 2 \<bar>x\<bar>\<rfloor> + 1)"
    by (simp_all add: powr_2_int powr_2_int_Suc)
qed

lemma round64_eval:
  assumes "2 powi k \<le> \<bar>x\<bar>" and "\<bar>x\<bar> < 2 powi (k + 1)"
  shows "round64 x =
     of_int (round_half_even (x / 2 powi (max (k - 52) (- 1074)))) * 2 powi (max (k - 52) (- 1074))"
proof -
  have p: "0 < (2::real) powi k"
    by simp
  have "x \<noteq> 0"
  proof
    assume "x = 0"
    with assms(1) p show False by simp
  qed
  then show ?thesis
    by (simp add: round64_def ulp_exponent_def floor_log2_eq[OF assms])
qed

lemma round_half_even_of_int [simp]: "round_half_even (of_int j) = j"
  by (simp add: round_half_even_def)

lemma round_half_even_bounds:
  "\<lfloor>q\<rfloor> \<le> round_half_even q" "round_half_even q \<le> \<lfloor>q\<rfloor> + 1"
  by (simp_all add: round_half_even_def Let_def)



lemma fl_finite_small:
  assumes "\<bar>x\<bar> < 2 ^ 1023"
  shows "is_finite (fl x)"
proof (cases "x = 0")
  case True
  then show ?thesis by (simp add: fl_def round64_def is_finite_def max_float_def)
next
  case False
  define k where "k = \<lfloor>log 2 \<bar>x\<bar>\<rfloor>"
  define u where "u = ulp_exponent x"
  have lo: "2 powi k \<le> \<bar>x\<bar>" and hi: "\<bar>x\<bar> < 2 powi (k + 1)"
    unfolding k_def using floor_log2_bounds[OF False] by simp_all
  have k: "k < 1023"
  proof (rule ccontr)
    assume "\<not> k < 1023"
    then have "(2::real) powi 1023 \<le> 2 powi k"
      by (intro power_int_increasing) auto
    with lo assms show False by simp
  qed
  have u: "u = max (k - 52) (- 1074)"
    by (simp add: u_def ulp_exponent_def k_def)
  have u970: "u \<le> 970" and ku: "k + 1 \<le> u + 53"
    using k by (simp_all add: u)
  have pu: "0 < (2::real) powi u"
    by simp
  have "\<bar>x\<bar> < 2 powi (u + 53)"
    using hi ku power_int_increasing[of "k + 1" "u + 53" "2::real"] by simp
  then have "\<bar>x\<bar> < 2 powi u * 2 ^ 53"
    by (simp add: power_int_add)
  then have q: "x / 2 powi u < 2 ^ 53" "- (2 ^ 53) < x / 2 powi u"
    using pu by (simp_all add: field_simps abs_less_iff)
  define n where "n = round_half_even (x / 2 powi u)"
  have "\<lfloor>x / 2 powi u\<rfloor> < 2 ^ 53" "- (2 ^ 53) \<le> \<lfloor>x / 2 powi u\<rfloor>"
    using q by (simp_all add: floor_less_iff le_floor_iff)
  then have n: "\<bar>n\<bar> \<le> 2 ^ 53"
    using round_half_even_bounds[of "x / 2 powi u"] unfolding n_def by linarith
  have r: "round64 x = of_int n * 2 powi u"
    using False by (simp add: round64_def n_def u_def)
  have "\<bar>of_int n * (2::real) powi u\<bar> = \<bar>of_int n\<bar> * 2 powi u"
    by (simp add: abs_mult)
  also have "\<dots> \<le> 2 ^ 53 * 2 powi u"
    using n pu by (simp add: mult_right_mono flip: of_int_abs)
  also have "\<dots> \<le> 2 ^ 53 * 2 powi 970"
    using u970 power_int_increasing[of u 970 "2::real"] by simp
  also have "\<dots> \<le> max_float"
    by (simp add: max_float_def)
  finally have "\<bar>round64 x\<bar> \<le> max_float"
    unfolding r .
  then show ?thesis
    by (simp add: fl_def Let_def is_finite_def abs_le_iff)
qed


lemma fl_zero [simp]: "fl 0 = Num 0"
  by (simp add: fl_def round64_def max_float_def)

lemma fl_exact:
  assumes m: "\<bar>m\<bar> < 2 ^ 53" and e: "- 1074 \<le> e" "e \<le> 971"
  shows "fl (of_int m * 2 powi e) = Num (of_int m * 2 powi e)"
proof (cases "m = 0")
  case True
  then show ?thesis by simp
next
  case False
  define x :: real where "x = of_int m * 2 powi e"
  have x0: "x \<noteq> 0"
    using False by (simp add: x_def)
  define k where "k = \<lfloor>log 2 \<bar>x\<bar>\<rfloor>"
  define u where "u = ulp_exponent x"
  have lo: "2 powi k \<le> \<bar>x\<bar>"
    unfolding k_def using floor_log2_bounds[OF x0] by simp
  have u: "u = max (k - 52) (- 1074)"
    by (simp add: u_def ulp_exponent_def k_def)
  have ax: "\<bar>x\<bar> = of_int \<bar>m\<bar> * 2 powi e"
    by (simp add: x_def abs_mult)
  have ue: "u \<le> e"
  proof (rule ccontr)
    assume "\<not> u \<le> e"
    then have "e \<le> k - 53"
      using e(1) by (simp add: u)
    then have "(2::real) powi e \<le> 2 powi (k - 53)"
      by (intro power_int_increasing) auto
    moreover have "real_of_int \<bar>m\<bar> < 2 ^ 53"
      using m by (metis of_int_less_numeral_power_cancel_iff)
    ultimately have "\<bar>x\<bar> < 2 ^ 53 * 2 powi (k - 53)"
      unfolding ax
      by (smt (verit) mult_less_le_imp_less of_int_0_le_iff abs_ge_zero zero_less_power_int)
    also have "\<dots> = 2 powi k"
      by (simp add: power_int_diff)
    finally show False
      using lo by simp
  qed
  define j where "j = m * 2 ^ nat (e - u)"
  have "2 powi e = (2::real) powi (e - u) * 2 powi u"
    by (simp flip: power_int_add)
  also have "(2::real) powi (e - u) = 2 ^ nat (e - u)"
    using ue by (simp add: power_int_def)
  finally have split: "(2::real) powi e = 2 ^ nat (e - u) * 2 powi u" .
  have q: "x / 2 powi u = of_int j"
    by (simp add: x_def j_def split)
  have r: "round64 x = x"
    using x0 by (simp add: round64_def q flip: u_def) (simp add: x_def j_def split)
  have "real_of_int \<bar>m\<bar> \<le> 2 ^ 53 - 1"
  proof -
    have "\<bar>m\<bar> \<le> 2 ^ 53 - 1"
      using m by simp
    then have "real_of_int \<bar>m\<bar> \<le> real_of_int (2 ^ 53 - 1)"
      by (rule of_int_le_iff[THEN iffD2])
    then show ?thesis by simp
  qed
  moreover have "(2::real) powi e \<le> 2 powi 971"
    using e(2) by (intro power_int_increasing) auto
  ultimately have "\<bar>x\<bar> \<le> (2 ^ 53 - 1) * 2 powi 971"
    unfolding ax by (intro mult_mono) auto
  then have "\<bar>x\<bar> \<le> max_float"
    by (simp add: max_float_def)
  then show ?thesis
    unfolding x_def[symmetric] by (simp add: fl_def Let_def r abs_le_iff)
qed

lemma fl_int_exact: "\<bar>m\<bar> < 2 ^ 53 \<Longrightarrow> fl (of_int m) = Num (of_int m)"
  using fl_exact[of m 0] by simp







lemma fsub_Num: "fsub (Num a) (Num b) = fl (a - b)"
  by (simp add: fsub_def fadd_def fneg_def)

section \<open>Loading: failures are reported, never propagated\<close>

lemma load_success:
  assumes "data_file k = Some p" and "fs p = Inr (NpzFile z)"
    and "z ''data'' = Some g" and "z ''lon_lat'' = Some b"
  shows "load fs k =
     (None, k\<lparr>data := Some (Archive z), actual_data := Some g, metadata := Some b,
               stdout := stdout k @ [Text ''You have successfully loaded your data and metadata.'']\<rparr>)"
  using assms
  by (simp add: load_def load_body_def try_except_def assign_def bindE_def name_def
      np_load_def getitem_str_def npz_getitem_def print_def)

text \<open>
  Claim C5. When \<^verbatim>\<open>data_file\<close> names a path that cannot be opened (no file exists there),
  whatever exception \<open>e\<close> the attempt raises, the load cell ends without an exception
  leaving it, binds no name, and prints exactly one line: the message naming the attempted
  path, followed by the text \<^verbatim>\<open>str(e)\<close> of the underlying exception.
\<close>

theorem load_missing_file_reported:
  assumes "data_file k = Some p" and "fs p = Inl e"
  shows "load fs k =
     (None, k\<lparr>stdout := stdout k @
        [Text (''Error: Failed to load or process data from '' @ quote @ p @ quote @ ''. ''
               @ str_exn e)]\<rparr>)"
  using assms
  by (simp add: load_def load_body_def try_except_def assign_def bindE_def name_def
      np_load_def report_def print_def error_message_def)

theorem load_missing_file_reported_witness:
  "data_file (fresh_kernel\<lparr>data_file := Some ''enter_the_name.here''\<rparr>) = Some ''enter_the_name.here''
   \<and> example_fs ''enter_the_name.here'' = Inl (no_such_file ''enter_the_name.here'')
   \<and> load example_fs (fresh_kernel\<lparr>data_file := Some ''enter_the_name.here''\<rparr>) =
       (None, fresh_kernel\<lparr>data_file := Some ''enter_the_name.here'',
          stdout := [Text (''Error: Failed to load or process data from ''
             @ quote @ ''enter_the_name.here'' @ quote
             @ ''. [Errno 2] No such file or directory: ''
             @ quote @ ''enter_the_name.here'' @ quote)]\<rparr>)"
proof -
  have h1: "data_file (fresh_kernel\<lparr>data_file := Some ''enter_the_name.here''\<rparr>)
      = Some ''enter_the_name.here''"
    by simp
  have h2: "example_fs ''enter_the_name.here'' = Inl (no_such_file ''enter_the_name.here'')"
    by (simp add: example_fs_def)
  have "str_exn (no_such_file ''enter_the_name.here'')
      = ''[Errno 2] No such file or directory: '' @ quote @ ''enter_the_name.here'' @ quote"
    by (simp add: no_such_file_def py_repr_def repr_char_def quote_def Let_def)
  with load_missing_file_reported
    [of "fresh_kernel\<lparr>data_file := Some ''enter_the_name.here''\<rparr>" "''enter_the_name.here''"
        example_fs "no_such_file ''enter_the_name.here''", OF h1 h2] h1 h2
  show ?thesis
    by (simp add: fresh_kernel_def)
qed


text \<open>
  Claim C6, as amended. When the file at \<^verbatim>\<open>data_file\<close> is an archive without a \<^verbatim>\<open>lon_lat\<close>
  member, the load cell ends without an exception leaving it and prints exactly one line:
  the error message with the attempted path and the text of the \<^verbatim>\<open>KeyError\<close>, which names
  the first member whose lookup failed. That member is \<^verbatim>\<open>lon_lat\<close> when \<^verbatim>\<open>data\<close> is in the
  archive, and \<^verbatim>\<open>data\<close> when both are missing.
\<close>

theorem load_missing_lon_lat_reported:
  assumes "data_file k = Some p" and "fs p = Inr (NpzFile z)" and "z ''lon_lat'' = None"
  shows "\<exists>k'. load fs k = (None, k') \<and>
     stdout k' = stdout k @
       [Text (''Error: Failed to load or process data from '' @ quote @ p @ quote @ ''. ''
          @ quote @ (if z ''data'' = None then ''data'' else ''lon_lat'')
          @ '' is not a file in the archive'' @ quote)]"
  using assms
  by (cases "z ''data''")
    (simp_all add: load_def load_body_def try_except_def assign_def bindE_def name_def
      np_load_def getitem_str_def npz_getitem_def report_def print_def error_message_def
      py_repr_def repr_char_def quote_def Let_def)

theorem load_missing_lon_lat_reported_witness:
  "data_file (fresh_kernel\<lparr>data_file := Some ''sub.npz''\<rparr>) = Some ''sub.npz''
   \<and> (\<lambda>p. Inr (NpzFile [''data'' \<mapsto> earlier_grid])) ''sub.npz''
       = (Inr (NpzFile [''data'' \<mapsto> earlier_grid]) :: exn + disk_file)
   \<and> [''data'' \<mapsto> earlier_grid] ''lon_lat'' = None
   \<and> (\<exists>k'. load (\<lambda>p. Inr (NpzFile [''data'' \<mapsto> earlier_grid]))
              (fresh_kernel\<lparr>data_file := Some ''sub.npz''\<rparr>) = (None, k')
          \<and> stdout k' =
             [Text (''Error: Failed to load or process data from '' @ quote @ ''sub.npz'' @ quote
                @ ''. '' @ quote @ ''lon_lat is not a file in the archive'' @ quote)])"
  using load_missing_lon_lat_reported
    [of "fresh_kernel\<lparr>data_file := Some ''sub.npz''\<rparr>" "''sub.npz''"
        "\<lambda>p. Inr (NpzFile [''data'' \<mapsto> earlier_grid])"
        "[''data'' \<mapsto> earlier_grid]"]
  by (simp add: fresh_kernel_def)

text \<open>
  Claim C6 as stated fails on an archive that lacks both members: the lookup of \<^verbatim>\<open>data\<close>
  fails first, and the one line printed names \<^verbatim>\<open>data\<close>; the text \<^verbatim>\<open>lon_lat\<close> does not
  occur in it.
\<close>

theorem load_missing_both_names_data:
  "example_fs ''empty.npz'' = Inr (NpzFile Map.empty)
   \<and> (Map.empty :: npz) ''lon_lat'' = None
   \<and> load example_fs (fresh_kernel\<lparr>data_file := Some ''empty.npz''\<rparr>) =
       (None, fresh_kernel\<lparr>data_file := Some ''empty.npz'', data := Some (Archive Map.empty),
          stdout := [Text (''Error: Failed to load or process data from '' @ quote
             @ ''empty.npz'' @ quote @ ''. '' @ quote
             @ ''data is not a file in the archive'' @ quote)]\<rparr>)
   \<and> \<not> occurs_in ''lon_lat''
         (''Error: Failed to load or process data from '' @ quote
             @ ''empty.npz'' @ quote @ ''. '' @ quote
             @ ''data is not a file in the archive'' @ quote)"
  by (simp add: example_fs_def load_def load_body_def try_except_def assign_def bindE_def
      name_def np_load_def getitem_str_def npz_getitem_def report_def print_def
      error_message_def py_repr_def repr_char_def quote_def Let_def fresh_kernel_def)

section \<open>Loading is not atomic\<close>

text \<open>
  Claim C10. When the archive holds \<^verbatim>\<open>data\<close> but no \<^verbatim>\<open>lon_lat\<close>, the load cell has already
  bound \<^verbatim>\<open>data\<close> and \<^verbatim>\<open>actual_data\<close> to the new archive and grid when the lookup of
  \<^verbatim>\<open>lon_lat\<close> fails: after the reported failure \<^verbatim>\<open>actual_data\<close> is the new grid and
  \<^verbatim>\<open>metadata\<close> is whatever it was before the cell ran (unbound, or the bounds of an
  earlier load).
\<close>

theorem load_not_atomic:
  assumes "data_file k = Some p" and "fs p = Inr (NpzFile z)"
    and "z ''data'' = Some g" and "z ''lon_lat'' = None"
  shows "load fs k =
     (None, k\<lparr>data := Some (Archive z), actual_data := Some g,
               stdout := stdout k @
                 [Text (error_message p (KeyError ''lon_lat is not a file in the archive''))]\<rparr>)
     \<and> actual_data (snd (load fs k)) = Some g
     \<and> metadata (snd (load fs k)) = metadata k"
  using assms
  by (simp add: load_def load_body_def try_except_def assign_def bindE_def name_def
      np_load_def getitem_str_def npz_getitem_def report_def print_def)

theorem load_not_atomic_witness:
  "data_file (fresh_kernel\<lparr>data_file := Some ''new.npz'',
        actual_data := Some constant_grid, metadata := Some example_bounds\<rparr>) = Some ''new.npz''
   \<and> (\<lambda>p. Inr (NpzFile [''data'' \<mapsto> earlier_grid])) ''new.npz''
       = (Inr (NpzFile [''data'' \<mapsto> earlier_grid]) :: exn + disk_file)
   \<and> [''data'' \<mapsto> earlier_grid] ''data'' = Some earlier_grid
   \<and> [''data'' \<mapsto> earlier_grid] ''lon_lat'' = None
   \<and> actual_data (snd (load (\<lambda>p. Inr (NpzFile [''data'' \<mapsto> earlier_grid]))
        (fresh_kernel\<lparr>data_file := Some ''new.npz'',
           actual_data := Some constant_grid, metadata := Some example_bounds\<rparr>)))
       = Some earlier_grid
   \<and> metadata (snd (load (\<lambda>p. Inr (NpzFile [''data'' \<mapsto> earlier_grid]))
        (fresh_kernel\<lparr>data_file := Some ''new.npz'',
           actual_data := Some constant_grid, metadata := Some example_bounds\<rparr>)))
       = Some example_bounds"
  using load_not_atomic
    [of "fresh_kernel\<lparr>data_file := Some ''new.npz'',
           actual_data := Some constant_grid, metadata := Some example_bounds\<rparr>"
        "''new.npz''"
        "\<lambda>p. Inr (NpzFile [''data'' \<mapsto> earlier_grid])"
        "[''data'' \<mapsto> earlier_grid]"
        earlier_grid]
  by (simp add: fresh_kernel_def)

section \<open>What a Challenge cell does on well-formed input\<close>

lemmas cell_defs = try_except_def assign_def bindE_def name_def print_def report_def
  call_fig_def imshow_def add_colorbar_def make_colorbar_def norm_limits_def
  set_ticks_def show_fig_def subplots_def
  read_bounds_def setup_axes_def statistics_def print_stat_def metadata_at_def
  lat_pair_def lon_pair_def getitem2_def cbar_fraction_def new_figure_def fsub_Num

lemma linspace_8_ends:
  "length (linspace lo hi 8) = 8" "last (linspace lo hi 8) = Num hi"
  by (simp_all add: linspace_def Let_def upt_rec)

lemma fl_600: "fl 600 = Num 600"
  using fl_int_exact[of 600] by simp

lemma fold_max_is_Max: "fold max xs (x::real) = Max (set (x # xs))"
  by (rule Max.set_eq_fold[symmetric])

lemma fold_min_is_Min: "fold min xs (x::real) = Min (set (x # xs))"
  by (rule Min.set_eq_fold[symmetric])

lemma well_formed_grid_nonempty: "well_formed_grid a \<Longrightarrow> flat a \<noteq> []"
  by (auto simp: well_formed_grid_def valid_array_def)

lemma challenge_I_run:
  assumes "actual_data k = Some a" and "flat a = x # xs" and "shape1 a \<noteq> 0"
    and "metadata k = Some b" and "shape0 b = 2" and "shape1 b = 2"
    and "is_finite (fl (fold max xs x - fold min xs x))"
  shows "challenge_I k = (None, k\<lparr>
     cmap_instance := Some ''inferno'',
     lat_min := Some (flat b ! 0), lat_max := Some (flat b ! 1),
     lon_min := Some (flat b ! 2), lon_max := Some (flat b ! 3),
     fig := Some \<lparr>figsize = (10, 8),
       xlim = Some (flat b ! 0, flat b ! 1), ylim = Some (flat b ! 2, flat b ! 3),
       title = ''Selected Subregion Of Interest (Default Range)'',
       xlabel = ''Longitude (Degrees)'', ylabel = ''Latitude (Degrees)'',
       image = Some \<lparr>im_data = a, im_cmap = ''inferno'', im_vmin = None, im_vmax = None,
         im_origin = ''lower'',
         im_extent = (flat b ! 0, flat b ! 1, flat b ! 2, flat b ! 3)\<rparr>,
       cbar = Some \<lparr>cb_fraction = 0.046 * real (shape0 a) / real (shape1 a), cb_pad = 0.04,
         cb_ticks = None\<rparr>,
       shown = True\<rparr>,
     stdout := stdout k @
       [Text ''You have successfully plotted your data with the default range.'']\<rparr>)"
  using assms
  by (simp add: challenge_I_def challenge_I_body_def cell_defs)

lemma challenge_II_run:
  assumes "actual_data k = Some a" and "flat a = x # xs" and "shape1 a \<noteq> 0"
    and "metadata k = Some b" and "shape0 b = 2" and "shape1 b = 2"
    and "is_finite (fl (fold max xs x - fold min xs x))"
  shows "challenge_II k = (None, k\<lparr>
     cmap_instance := Some ''inferno'',
     lat_min := Some (flat b ! 0), lat_max := Some (flat b ! 1),
     lon_min := Some (flat b ! 2), lon_max := Some (flat b ! 3),
     vmin := Some (fold min xs x), vmax := Some (fold max xs x),
     fig := Some \<lparr>figsize = (10, 8),
       xlim = Some (flat b ! 0, flat b ! 1), ylim = Some (flat b ! 2, flat b ! 3),
       title = ''Selected Subregion Of Interest (Min-Max Range)'',
       xlabel = ''Longitude (Degrees)'', ylabel = ''Latitude (Degrees)'',
       image = Some \<lparr>im_data = a, im_cmap = ''inferno'',
         im_vmin = Some (fold min xs x), im_vmax = Some (fold max xs x),
         im_origin = ''lower'',
         im_extent = (flat b ! 0, flat b ! 1, flat b ! 2, flat b ! 3)\<rparr>,
       cbar = Some \<lparr>cb_fraction = 0.046 * real (shape0 a) / real (shape1 a), cb_pad = 0.04,
         cb_ticks = Some (linspace (fold min xs x) (fold max xs x) 8)\<rparr>,
       shown = True\<rparr>,
     cbar_ticks := Some (linspace (fold min xs x) (fold max xs x) 8),
     max_slope := Some (fold max xs x), min_slope := Some (fold min xs x),
     avg_slope := Some (np_mean a), std_slope := Some (np_std a),
     stdout := stdout k @
       [Text ''You have successfully plotted your data with the default range.'',
        Text ''You have successfully replotted your data with the min-max range.'',
        Stat ''Maximum slope value: '' (Num (fold max xs x)),
        Stat ''Minimum slope value: '' (Num (fold min xs x)),
        Stat ''Average slope value: '' (np_mean a),
        Stat ''Standard deviation of slope values: '' (np_std a)]\<rparr>)"
  using assms
  by (simp add: challenge_II_def challenge_II_body_def cell_defs np_min_def np_max_def)

lemma challenge_II_overflow:
  assumes "actual_data k = Some a" and "flat a = x # xs" and "shape1 a \<noteq> 0"
    and "metadata k = Some b" and "shape0 b = 2" and "shape1 b = 2"
    and "\<not> is_finite (fl (fold max xs x - fold min xs x))"
    and "data_file k = Some p"
  shows "challenge_II k = (None, k\<lparr>
     cmap_instance := Some ''inferno'',
     lat_min := Some (flat b ! 0), lat_max := Some (flat b ! 1),
     lon_min := Some (flat b ! 2), lon_max := Some (flat b ! 3),
     vmin := Some (fold min xs x), vmax := Some (fold max xs x),
     fig := Some \<lparr>figsize = (10, 8),
       xlim = Some (flat b ! 0, flat b ! 1), ylim = Some (flat b ! 2, flat b ! 3),
       title = ''Selected Subregion Of Interest (Min-Max Range)'',
       xlabel = ''Longitude (Degrees)'', ylabel = ''Latitude (Degrees)'',
       image = Some \<lparr>im_data = a, im_cmap = ''inferno'',
         im_vmin = Some (fold min xs x), im_vmax = Some (fold max xs x),
         im_origin = ''lower'',
         im_extent = (flat b ! 0, flat b ! 1, flat b ! 2, flat b ! 3)\<rparr>,
       cbar = None, shown = False\<rparr>,
     stdout := stdout k @
       [Text ''You have successfully plotted your data with the default range.'',
        Text (error_message p (ValueError ''Axis limits cannot be NaN or Inf''))]\<rparr>)"
  using assms
  by (simp add: challenge_II_def challenge_II_body_def cell_defs np_min_def np_max_def)

lemma challenge_III_run:
  assumes "actual_data k = Some a" and "shape1 a \<noteq> 0"
    and "metadata k = Some b" and "shape0 b = 2" and "shape1 b = 2"
    and "vmin k = Some lo" and "vmax k = Some hi"
  shows "challenge_III k = (None, k\<lparr>
     cmap_instance := Some ''inferno'',
     lat_min := Some (flat b ! 0), lat_max := Some (flat b ! 1),
     lon_min := Some (flat b ! 2), lon_max := Some (flat b ! 3),
     fixed_vmin := Some 0, fixed_vmax := Some 600,
     fig := Some \<lparr>figsize = (10, 8),
       xlim = Some (flat b ! 0, flat b ! 1), ylim = Some (flat b ! 2, flat b ! 3),
       title = ''Selected Subregion Of Interest (Range 0 to 3000)'',
       xlabel = ''Longitude (Degrees)'', ylabel = ''Latitude (Degrees)'',
       image = Some \<lparr>im_data = a, im_cmap = ''inferno'',
         im_vmin = Some 0, im_vmax = Some 600, im_origin = ''lower'',
         im_extent = (flat b ! 0, flat b ! 1, flat b ! 2, flat b ! 3)\<rparr>,
       cbar = Some \<lparr>cb_fraction = 0.046 * real (shape0 a) / real (shape1 a), cb_pad = 0.04,
         cb_ticks = Some (linspace 0 600 8)\<rparr>,
       shown = True\<rparr>,
     cbar_ticks := Some (linspace 0 600 8),
     max_slope := Some hi, min_slope := Some lo,
     avg_slope := Some (np_mean a), std_slope := Some (np_std a),
     stdout := stdout k @
       [Text ''You have successfully replotted your data with the range 0 to 3000.'',
        Stat ''Maximum slope value: '' (Num hi),
        Stat ''Minimum slope value: '' (Num lo),
        Stat ''Average slope value: '' (np_mean a),
        Stat ''Standard deviation of slope values: '' (np_std a)]\<rparr>)"
  using assms
  by (simp add: challenge_III_def challenge_III_body_def cell_defs fl_600 is_finite_def)

lemma challenge_III_vmax_unbound:
  assumes "actual_data k = Some a" and "shape1 a \<noteq> 0"
    and "metadata k = Some b" and "shape0 b = 2" and "shape1 b = 2"
    and "vmax k = None" and "data_file k = Some p"
  shows "challenge_III k = (None, k\<lparr>
     cmap_instance := Some ''inferno'',
     lat_min := Some (flat b ! 0), lat_max := Some (flat b ! 1),
     lon_min := Some (flat b ! 2), lon_max := Some (flat b ! 3),
     fixed_vmin := Some 0, fixed_vmax := Some 600,
     fig := Some \<lparr>figsize = (10, 8),
       xlim = Some (flat b ! 0, flat b ! 1), ylim = Some (flat b ! 2, flat b ! 3),
       title = ''Selected Subregion Of Interest (Range 0 to 3000)'',
       xlabel = ''Longitude (Degrees)'', ylabel = ''Latitude (Degrees)'',
       image = Some \<lparr>im_data = a, im_cmap = ''inferno'',
         im_vmin = Some 0, im_vmax = Some 600, im_origin = ''lower'',
         im_extent = (flat b ! 0, flat b ! 1, flat b ! 2, flat b ! 3)\<rparr>,
       cbar = Some \<lparr>cb_fraction = 0.046 * real (shape0 a) / real (shape1 a), cb_pad = 0.04,
         cb_ticks = Some (linspace 0 600 8)\<rparr>,
       shown = False\<rparr>,
     cbar_ticks := Some (linspace 0 600 8),
     stdout := stdout k @
       [Text ''You have successfully replotted your data with the range 0 to 3000.'',
        Text (error_message p (NameError ''vmax''))]\<rparr>)"
  using assms
  by (simp add: challenge_III_def challenge_III_body_def cell_defs fl_600 is_finite_def)


section \<open>Example sessions, evaluated\<close>

lemma example_grid_facts:
  "shape0 example_grid = 1" "shape1 example_grid = 2" "flat example_grid = 12.3 # [844]"
  by (simp_all add: example_grid_def)

lemma example_bounds_facts:
  "shape0 example_bounds = 2" "shape1 example_bounds = 2"
  "flat example_bounds ! 0 = 30" "flat example_bounds ! 1 = 40"
  "flat example_bounds ! 2 = -100" "flat example_bounds ! 3 = -90"
  "flat example_bounds ! Suc 0 = 40"
  by (simp_all add: example_bounds_def)

lemma fl_small_ints:
  "fl 1 = Num 1" "fl 5 = Num 5" "fl 10 = Num 10" "fl 20 = Num 20" "fl 40 = Num 40"
  "fl 80 = Num 80"
  using fl_int_exact[of 1] fl_int_exact[of 5] fl_int_exact[of 10] fl_int_exact[of 20]
    fl_int_exact[of 40] fl_int_exact[of 80]
  by simp_all

lemma example_grid_span: "is_finite (fl (fold max [844] 12.3 - fold min [844] 12.3))"
  by (rule fl_finite_small) simp

lemma earlier_grid_span: "is_finite (fl (fold max [2] 1 - fold min [2] 1))"
  by (simp add: fl_small_ints is_finite_def)

lemma session_eq:
  assumes "example_fs p = Inr (archive_of g)"
  shows "session p = fresh_kernel\<lparr>data_file := Some p,
      data := Some (Archive [''data'' \<mapsto> g, ''lon_lat'' \<mapsto> example_bounds]),
      actual_data := Some g, metadata := Some example_bounds,
      stdout := [Text ''You have successfully loaded your data and metadata.'']\<rparr>"
  unfolding session_def
  by (subst load_success[where p = p and g = g and b = example_bounds
        and z = "[''data'' \<mapsto> g, ''lon_lat'' \<mapsto> example_bounds]"])
     (simp_all add: assms[unfolded archive_of_def] fresh_kernel_def)

lemma session_facts:
  assumes "example_fs p = Inr (archive_of g)"
  shows "data_file (session p) = Some p"
    "actual_data (session p) = Some g"
    "metadata (session p) = Some example_bounds"
    "vmin (session p) = None" "vmax (session p) = None"
    "max_slope (session p) = None" "min_slope (session p) = None"
    "avg_slope (session p) = None" "std_slope (session p) = None"
    "cbar_ticks (session p) = None"
    "stdout (session p) = [Text ''You have successfully loaded your data and metadata.'']"
  by (simp_all add: session_eq[OF assms] fresh_kernel_def)

lemma example_fs_files:
  "example_fs ''earlier.npz'' = Inr (archive_of earlier_grid)"
  "example_fs ''subregion.npz'' = Inr (archive_of example_grid)"
  "example_fs ''constant.npz'' = Inr (archive_of constant_grid)"
  "example_fs ''tenths.npz'' = Inr (archive_of tenths_grid)"
  "example_fs ''overflow.npz'' = Inr (archive_of overflow_grid)"
  "example_fs ''minus_tenths.npz'' = Inr (archive_of minus_tenths_grid)"
  by (simp_all add: example_fs_def)

lemma loaded_kernel_session: "loaded_kernel = session ''subregion.npz''"
  by (simp add: loaded_kernel_def session_def)

lemmas loaded_kernel_facts =
  session_facts[OF example_fs_files(2), folded loaded_kernel_session]

lemma reloaded_kernel_facts:
  "data_file reloaded_kernel = Some ''subregion.npz''"
  "actual_data reloaded_kernel = Some example_grid"
  "metadata reloaded_kernel = Some example_bounds"
  "vmin reloaded_kernel = Some 1" "vmax reloaded_kernel = Some 2"
proof -
  let ?k0 = "session ''earlier.npz''"
  let ?z1 = "[''data'' \<mapsto> example_grid, ''lon_lat'' \<mapsto> example_bounds]"
  note s0 = session_facts[OF example_fs_files(1)]
  have e: "flat earlier_grid = 1 # [2]" "shape1 earlier_grid \<noteq> 0"
    by (simp_all add: earlier_grid_def)
  have a0: "after_earlier_session = snd (challenge_II ?k0)"
    by (simp add: after_earlier_session_def session_def)
  have a: "data_file after_earlier_session = Some ''earlier.npz''"
      "vmin after_earlier_session = Some 1" "vmax after_earlier_session = Some 2"
    unfolding a0
    by (simp_all add: challenge_II_run[OF s0(2) e s0(3) example_bounds_facts(1,2)
          earlier_grid_span] s0)
  let ?k1 = "after_earlier_session\<lparr>data_file := Some ''subregion.npz''\<rparr>"
  have l1: "reloaded_kernel = ?k1\<lparr>data := Some (Archive ?z1), actual_data := Some example_grid,
      metadata := Some example_bounds,
      stdout := stdout ?k1 @ [Text ''You have successfully loaded your data and metadata.'']\<rparr>"
    unfolding reloaded_kernel_def
    by (subst load_success[where p = "''subregion.npz''" and z = ?z1 and g = example_grid
          and b = example_bounds]) (simp_all add: example_fs_def archive_of_def)
  show "data_file reloaded_kernel = Some ''subregion.npz''"
    "actual_data reloaded_kernel = Some example_grid"
    "metadata reloaded_kernel = Some example_bounds"
    "vmin reloaded_kernel = Some 1" "vmax reloaded_kernel = Some 2"
    by (simp_all add: l1 a)
qed

lemma moderate_span:
  assumes "moderate_values a" and "flat a = x # xs"
  shows "is_finite (fl (fold max xs x - fold min xs x))"
proof -
  have all: "\<And>y. y \<in> set (flat a) \<Longrightarrow> \<bar>y\<bar> < 2 ^ 1022"
    using assms(1) by (simp add: moderate_values_def list_all_iff)
  have "fold max xs x \<in> set (flat a)" "fold min xs x \<in> set (flat a)"
    unfolding fold_max_is_Max fold_min_is_Min assms(2)
    by (rule Max_in, simp, simp, rule Min_in, simp, simp)
  then have "\<bar>fold max xs x\<bar> < 2 ^ 1022" "\<bar>fold min xs x\<bar> < 2 ^ 1022"
    using all by blast+
  then have "\<bar>fold max xs x - fold min xs x\<bar> < 2 ^ 1023"
    by simp
  then show ?thesis
    by (rule fl_finite_small)
qed


section \<open>float64 evaluation of the example grids\<close>

lemma round_half_even_numeral [simp]: "round_half_even (numeral n) = numeral n"
  by (simp add: round_half_even_def)


lemma f1e308_is_float: "fl (10 ^ 308) = Num f1e308"
proof -
  have "round64 (10 ^ 308) = f1e308"
    by (subst round64_eval[where k = 1023]) (simp_all add: round_half_even_def f1e308_def)
  then show ?thesis
    by (simp add: fl_def max_float_def f1e308_def)
qed












lemma overflow_span:
  "\<not> is_finite (fl (fold max [f1e308] (- f1e308) - fold min [f1e308] (- f1e308)))"
proof -
  have m: "max f1e308 (- f1e308) = f1e308" "min f1e308 (- f1e308) = - f1e308"
    by (simp_all add: f1e308_def)
  have "round64 (f1e308 - - f1e308) = 5010420900022432 * 2 ^ 972"
    by (subst round64_eval[where k = 1024]) (simp_all add: f1e308_def)
  then have "fl (f1e308 - - f1e308) = PInf"
    by (simp add: fl_def max_float_def)
  then show ?thesis
    by (simp add: m is_finite_def)
qed

lemma constant_grid_flat: "flat constant_grid = 5 # replicate 15 5"
  by (simp add: constant_grid_def eval_nat_numeral)

lemma constant_grid_list: "replicate 16 (5::real) = [5, 5, 5, 5, 5, 5, 5, 5, 5, 5, 5, 5, 5, 5, 5, 5]"
  by (simp add: eval_nat_numeral)

lemma np_mean_constant: "np_mean constant_grid = Num 5"
  by (simp add: np_mean_def constant_grid_def constant_grid_list umr_sum_def
      pairwise_sum.simps accumulate8.simps fadd_def fdiv_count_def fl_small_ints)

lemma np_std_constant: "np_std constant_grid = Num 0"
  unfolding np_std_def np_mean_constant
  by (simp add: constant_grid_def constant_grid_list umr_sum_def Let_def
      pairwise_sum.simps accumulate8.simps fadd_def fsub_Num fmul_def fdiv_count_def fsqrt_def)

lemma constant_span: "is_finite (fl (fold max (replicate 15 5) 5 - fold min (replicate 15 5) 5))"
proof -
  have "fold max (replicate 15 5) (5::real) = 5" "fold min (replicate 15 5) (5::real) = 5"
    by (simp_all add: eval_nat_numeral)
  then show ?thesis by (simp add: is_finite_def)
qed


section \<open>The min-max render\<close>

lemma overflow_grid_facts:
  "flat overflow_grid = - f1e308 # [f1e308]" "shape1 overflow_grid \<noteq> 0"
  "well_formed_grid overflow_grid"
  by (simp_all add: overflow_grid_def well_formed_grid_def valid_array_def)

lemma example_bounds_well_formed: "well_formed_bounds example_bounds"
  by (simp add: well_formed_bounds_def valid_array_def example_bounds_def)

text \<open>
  Claim C3 as stated fails on the well-formed grid \<open>[[-1e308, 1e308]]\<close>: the difference
  of its greatest and least element overflows float64, the call \<^verbatim>\<open>fig.colorbar\<close> raises
  \<^verbatim>\<open>ValueError\<close>, and the Challenge II cell prints the error line. No maximum is reported
  (\<^verbatim>\<open>max_slope\<close> stays unbound), and neither \<^verbatim>\<open>cbar\<close> nor \<^verbatim>\<open>cbar_ticks\<close> is bound.
\<close>

theorem minmax_render_overflow:
  "fl (10 ^ 308) = Num f1e308
   \<and> well_formed_grid overflow_grid \<and> well_formed_bounds example_bounds
   \<and> example_fs ''overflow.npz''
       = Inr (NpzFile [''data'' \<mapsto> overflow_grid, ''lon_lat'' \<mapsto> example_bounds])
   \<and> fst (challenge_II (snd (load example_fs (fresh_kernel\<lparr>data_file := Some ''overflow.npz''\<rparr>))))
       = None
   \<and> max_slope (snd (challenge_II
        (snd (load example_fs (fresh_kernel\<lparr>data_file := Some ''overflow.npz''\<rparr>))))) = None
   \<and> cbar_ticks (snd (challenge_II
        (snd (load example_fs (fresh_kernel\<lparr>data_file := Some ''overflow.npz''\<rparr>))))) = None
   \<and> map_option cbar (fig (snd (challenge_II
        (snd (load example_fs (fresh_kernel\<lparr>data_file := Some ''overflow.npz''\<rparr>)))))) = Some None
   \<and> stdout (snd (challenge_II
        (snd (load example_fs (fresh_kernel\<lparr>data_file := Some ''overflow.npz''\<rparr>))))) =
       [Text ''You have successfully loaded your data and metadata.'',
        Text ''You have successfully plotted your data with the default range.'',
        Text (''Error: Failed to load or process data from '' @ quote @ ''overflow.npz'' @ quote
              @ ''. Axis limits cannot be NaN or Inf'')]"
proof -
  note s = session_facts[OF example_fs_files(5)]
  note r = challenge_II_overflow[OF s(2) overflow_grid_facts(1,2) s(3)
      example_bounds_facts(1,2) overflow_span s(1)]
  have "example_fs ''overflow.npz''
      = Inr (NpzFile [''data'' \<mapsto> overflow_grid, ''lon_lat'' \<mapsto> example_bounds])"
    by (simp add: example_fs_def archive_of_def)
  then show ?thesis
    using f1e308_is_float overflow_grid_facts(3) example_bounds_well_formed
    by (simp add: r[unfolded session_def] s[unfolded session_def] error_message_def)
qed

lemma challenge_II_reports:
  assumes "actual_data k = Some a" and "flat a = x # xs" and "shape1 a \<noteq> 0"
    and "metadata k = Some b" and "shape0 b = 2" and "shape1 b = 2"
    and "is_finite (fl (fold max xs x - fold min xs x))"
  shows "\<exists>k' f c. challenge_II k = (None, k')
     \<and> max_slope k' = Some (fold max xs x) \<and> min_slope k' = Some (fold min xs x)
     \<and> avg_slope k' = Some (np_mean a) \<and> std_slope k' = Some (np_std a)
     \<and> Stat ''Maximum slope value: '' (Num (fold max xs x)) \<in> set (stdout k')
     \<and> fig k' = Some f \<and> cbar f = Some c
     \<and> cb_ticks c = Some (linspace (fold min xs x) (fold max xs x) 8)"
  by (simp add: challenge_II_run[OF assms])

text \<open>
  Claim C3, as amended. For every well-formed archive whose grid has moderate values
  (every element below \<open>2 ^ 1022\<close> in magnitude), running the load cell and then the
  Challenge II cell ends without an exception, reports as maximum (in \<^verbatim>\<open>max_slope\<close> and
  in the printed line) the greatest element of the grid, and gives the colorbar the 8 ticks
  \<^verbatim>\<open>np.linspace(vmin, vmax, 8)\<close> from the least to the greatest element; the last tick is
  the greatest element itself.
\<close>

theorem minmax_render_reports_true_max:
  assumes "data_file k = Some p" and "fs p = Inr (NpzFile z)"
    and "z ''data'' = Some g" and "z ''lon_lat'' = Some b"
    and "well_formed_grid g" and "well_formed_bounds b" and "moderate_values g"
  shows "\<exists>k' f c ts. challenge_II (snd (load fs k)) = (None, k')
     \<and> max_slope k' = Some (Max (set (flat g)))
     \<and> Stat ''Maximum slope value: '' (Num (Max (set (flat g)))) \<in> set (stdout k')
     \<and> fig k' = Some f \<and> cbar f = Some c \<and> cb_ticks c = Some ts
     \<and> ts = linspace (Min (set (flat g))) (Max (set (flat g))) 8
     \<and> length ts = 8 \<and> last ts = Num (Max (set (flat g)))"
proof -
  let ?k1 = "k\<lparr>data := Some (Archive z), actual_data := Some g, metadata := Some b,
               stdout := stdout k @ [Text ''You have successfully loaded your data and metadata.'']\<rparr>"
  have l: "snd (load fs k) = ?k1"
    using assms(1-4) by (simp add: load_success)
  obtain x xs where g: "flat g = x # xs"
    using well_formed_grid_nonempty[OF assms(5)] by (cases "flat g") auto
  have s1: "shape1 g \<noteq> 0"
    using assms(5) by (simp add: well_formed_grid_def)
  have b: "shape0 b = 2" "shape1 b = 2"
    using assms(6) by (simp_all add: well_formed_bounds_def)
  have mx: "fold max xs x = Max (set (flat g))" and mn: "fold min xs x = Min (set (flat g))"
    unfolding g by (rule fold_max_is_Max, rule fold_min_is_Min)
  have "\<exists>k' f c. challenge_II ?k1 = (None, k')
     \<and> max_slope k' = Some (fold max xs x) \<and> min_slope k' = Some (fold min xs x)
     \<and> avg_slope k' = Some (np_mean g) \<and> std_slope k' = Some (np_std g)
     \<and> Stat ''Maximum slope value: '' (Num (fold max xs x)) \<in> set (stdout k')
     \<and> fig k' = Some f \<and> cbar f = Some c
     \<and> cb_ticks c = Some (linspace (fold min xs x) (fold max xs x) 8)"
    by (rule challenge_II_reports[where a = g and b = b])
      (simp_all add: g s1 b moderate_span[OF assms(7) g])
  then obtain k' f c where r: "challenge_II ?k1 = (None, k')"
      "max_slope k' = Some (Max (set (flat g)))"
      "Stat ''Maximum slope value: '' (Num (Max (set (flat g)))) \<in> set (stdout k')"
      "fig k' = Some f" "cbar f = Some c"
      "cb_ticks c = Some (linspace (Min (set (flat g))) (Max (set (flat g))) 8)"
    unfolding mx mn by blast
  show ?thesis
    unfolding l using r linspace_8_ends by blast
qed

theorem minmax_render_reports_true_max_witness:
  "data_file (fresh_kernel\<lparr>data_file := Some ''subregion.npz''\<rparr>) = Some ''subregion.npz''
   \<and> example_fs ''subregion.npz''
       = Inr (NpzFile [''data'' \<mapsto> example_grid, ''lon_lat'' \<mapsto> example_bounds])
   \<and> [''data'' \<mapsto> example_grid, ''lon_lat'' \<mapsto> example_bounds] ''data'' = Some example_grid
   \<and> [''data'' \<mapsto> example_grid, ''lon_lat'' \<mapsto> example_bounds] ''lon_lat'' = Some example_bounds
   \<and> well_formed_grid example_grid \<and> well_formed_bounds example_bounds
   \<and> moderate_values example_grid
   \<and> (\<exists>k' f c ts.
         challenge_II (snd (load example_fs (fresh_kernel\<lparr>data_file := Some ''subregion.npz''\<rparr>)))
           = (None, k')
         \<and> max_slope k' = Some 844
         \<and> Stat ''Maximum slope value: '' (Num 844) \<in> set (stdout k')
         \<and> fig k' = Some f \<and> cbar f = Some c \<and> cb_ticks c = Some ts
         \<and> length ts = 8 \<and> last ts = Num 844)"
proof -
  let ?z = "[''data'' \<mapsto> example_grid, ''lon_lat'' \<mapsto> example_bounds]"
  have h1: "data_file (fresh_kernel\<lparr>data_file := Some ''subregion.npz''\<rparr>) = Some ''subregion.npz''"
    by simp
  have h2: "example_fs ''subregion.npz'' = Inr (NpzFile ?z)"
    by (simp add: example_fs_def archive_of_def)
  have h3: "?z ''data'' = Some example_grid" and h4: "?z ''lon_lat'' = Some example_bounds"
    by simp_all
  have h5: "well_formed_grid example_grid"
    by (simp add: well_formed_grid_def valid_array_def example_grid_def)
  note h6 = example_bounds_well_formed
  have h7: "moderate_values example_grid"
    by (simp add: moderate_values_def example_grid_def)
  have m: "Max (set (flat example_grid)) = 844"
    by (simp add: example_grid_def)
  from minmax_render_reports_true_max
    [of "fresh_kernel\<lparr>data_file := Some ''subregion.npz''\<rparr>" "''subregion.npz''" example_fs
        ?z example_grid example_bounds, OF h1 h2 h3 h4 h5 h6 h7]
  have "\<exists>k' f c ts.
         challenge_II (snd (load example_fs (fresh_kernel\<lparr>data_file := Some ''subregion.npz''\<rparr>)))
           = (None, k')
         \<and> max_slope k' = Some 844
         \<and> Stat ''Maximum slope value: '' (Num 844) \<in> set (stdout k')
         \<and> fig k' = Some f \<and> cbar f = Some c \<and> cb_ticks c = Some ts
         \<and> length ts = 8 \<and> last ts = Num 844"
    unfolding m by blast
  with h1 h2 h3 h4 h5 h6 h7 show ?thesis by blast
qed

section \<open>Order of the statistics\<close>






section \<open>The constant grid\<close>

lemma constant_grid_minmax_render:
  assumes "actual_data k = Some constant_grid" and "metadata k = Some b"
    and "well_formed_bounds b"
  shows "\<exists>k'. challenge_II k = (None, k')
     \<and> avg_slope k' = Some (Num 5) \<and> std_slope k' = Some (Num 0)
     \<and> Stat ''Average slope value: '' (Num 5) \<in> set (stdout k')
     \<and> Stat ''Standard deviation of slope values: '' (Num 0) \<in> set (stdout k')"
proof -
  have b: "shape0 b = 2" "shape1 b = 2"
    using assms(3) by (simp_all add: well_formed_bounds_def)
  have s: "shape1 constant_grid \<noteq> 0"
    by (simp add: constant_grid_def)
  show ?thesis
    by (simp add: challenge_II_run[OF assms(1) constant_grid_flat s assms(2) b constant_span]
        np_mean_constant np_std_constant)
qed

text \<open>
  Claim C8. On the constant 4 by 4 grid of fives the Challenge I cell (default range)
  reports no mean and no standard deviation, and the Challenge III cell (fixed range), in a
  kernel where only the load cell has run, stops at \<^verbatim>\<open>max_slope = vmax\<close> with a
  \<^verbatim>\<open>NameError\<close> before it computes them. The Challenge II cell reports mean 5 and
  standard deviation 0 exactly.
\<close>

theorem constant_grid_not_reported:
  "actual_data (session ''constant.npz'') = Some constant_grid
   \<and> metadata (session ''constant.npz'') = Some example_bounds
   \<and> fst (challenge_I (session ''constant.npz'')) = None
   \<and> avg_slope (snd (challenge_I (session ''constant.npz''))) = None
   \<and> std_slope (snd (challenge_I (session ''constant.npz''))) = None
   \<and> stdout (snd (challenge_I (session ''constant.npz''))) =
       [Text ''You have successfully loaded your data and metadata.'',
        Text ''You have successfully plotted your data with the default range.'']
   \<and> fst (challenge_III (session ''constant.npz'')) = None
   \<and> avg_slope (snd (challenge_III (session ''constant.npz''))) = None
   \<and> std_slope (snd (challenge_III (session ''constant.npz''))) = None
   \<and> stdout (snd (challenge_III (session ''constant.npz''))) =
       [Text ''You have successfully loaded your data and metadata.'',
        Text ''You have successfully replotted your data with the range 0 to 3000.'',
        Text (error_message ''constant.npz'' (NameError ''vmax''))]
   \<and> fst (challenge_II (session ''constant.npz'')) = None
   \<and> avg_slope (snd (challenge_II (session ''constant.npz''))) = Some (Num 5)
   \<and> std_slope (snd (challenge_II (session ''constant.npz''))) = Some (Num 0)"
proof -
  note s = session_facts[OF example_fs_files(3)]
  have c: "shape1 constant_grid \<noteq> 0"
    by (simp add: constant_grid_def)
  note one = challenge_I_run[OF s(2) constant_grid_flat c s(3) example_bounds_facts(1,2)
      constant_span]
  note two = challenge_II_run[OF s(2) constant_grid_flat c s(3) example_bounds_facts(1,2)
      constant_span]
  note three = challenge_III_vmax_unbound[OF s(2) c s(3) example_bounds_facts(1,2) s(5) s(1)]
  show ?thesis
    by (simp add: one two three s np_mean_constant np_std_constant)
qed

section \<open>Where the cells fall short of their own description\<close>

text \<open>
  Claim C2. The Challenge I cell (default range) computes no statistics, although its
  heading lists "Compute min, max, average and std elevation" and the two sibling cells
  do: after the load cell and Challenge I on a well-formed archive, the only line printed
  by the cell is the success message, and \<^verbatim>\<open>max_slope\<close>, \<^verbatim>\<open>min_slope\<close>, \<^verbatim>\<open>avg_slope\<close> and
  \<^verbatim>\<open>std_slope\<close> are unbound. The image is drawn without \<^verbatim>\<open>vmin\<close>/\<^verbatim>\<open>vmax\<close>.
\<close>

theorem default_render_reports_no_statistics:
  "\<exists>k' f im. challenge_I loaded_kernel = (None, k')
     \<and> stdout k' =
        [Text ''You have successfully loaded your data and metadata.'',
         Text ''You have successfully plotted your data with the default range.'']
     \<and> max_slope k' = None \<and> min_slope k' = None
     \<and> avg_slope k' = None \<and> std_slope k' = None
     \<and> fig k' = Some f \<and> image f = Some im \<and> im_vmin im = None \<and> im_vmax im = None"
proof -
  have "shape1 example_grid \<noteq> 0"
    by (simp add: example_grid_def)
  note challenge_I_run[OF loaded_kernel_facts(2) example_grid_facts(3) this
      loaded_kernel_facts(3) example_bounds_facts(1,2) example_grid_span]
  then show ?thesis
    by (simp add: loaded_kernel_facts)
qed

text \<open>
  Claim C4. The cells name row 0 of the bounds \<^verbatim>\<open>lat_min, lat_max\<close> ("Minimum latitude",
  "Maximum latitude") and row 1 \<^verbatim>\<open>lon_min, lon_max\<close>, and then pass row 0 as the x limits
  and as the first two entries of \<^verbatim>\<open>extent\<close> (left, right), under the x label
  "Longitude (Degrees)"; row 1 becomes the y range under "Latitude (Degrees)". With bounds
  whose latitude row is \<open>[30, 40]\<close> and longitude row is \<open>[-100, -90]\<close> the x axis labelled
  longitude spans \<open>[30, 40]\<close>. Origin, colorbar fraction (0.046 * 1 / 2 for the 1 by 2
  grid) and padding are as described.
\<close>

theorem render_x_range_is_latitude_row:
  "getitem2 example_bounds 0 0 = Inr 30 \<and> getitem2 example_bounds 0 1 = Inr 40
   \<and> getitem2 example_bounds 1 0 = Inr (- 100) \<and> getitem2 example_bounds 1 1 = Inr (- 90)
   \<and> (\<exists>k' f im c. challenge_I loaded_kernel = (None, k')
         \<and> lat_min k' = Some 30 \<and> lat_max k' = Some 40
         \<and> lon_min k' = Some (- 100) \<and> lon_max k' = Some (- 90)
         \<and> fig k' = Some f
         \<and> xlabel f = ''Longitude (Degrees)'' \<and> xlim f = Some (30, 40)
         \<and> ylabel f = ''Latitude (Degrees)'' \<and> ylim f = Some (- 100, - 90)
         \<and> image f = Some im \<and> im_origin im = ''lower''
         \<and> im_extent im = (30, 40, - 100, - 90)
         \<and> cbar f = Some c \<and> cb_fraction c = 0.046 * 1 / 2 \<and> cb_pad c = 0.04)"
proof -
  have "getitem2 example_bounds 0 0 = Inr 30" "getitem2 example_bounds 0 1 = Inr 40"
    "getitem2 example_bounds 1 0 = Inr (- 100)" "getitem2 example_bounds 1 1 = Inr (- 90)"
    by (simp_all add: getitem2_def example_bounds_def)
  moreover have "shape1 example_grid \<noteq> 0"
    by (simp add: example_grid_def)
  note challenge_I_run[OF loaded_kernel_facts(2) example_grid_facts(3) this
      loaded_kernel_facts(3) example_bounds_facts(1,2) example_grid_span]
  ultimately show ?thesis
    by (simp add: example_bounds_facts example_grid_facts)
qed

text \<open>
  Claim C1. The Challenge III cell never computes the minimum and maximum of the grid: its
  lines \<^verbatim>\<open>max_slope = vmax  # Maximum value in the data\<close> and \<^verbatim>\<open>min_slope = vmin\<close> read
  whatever an earlier Challenge II run left in the kernel. In a kernel that ran
  Challenge II on an earlier grid with range \<open>[1, 2]\<close> and then loaded a grid with range
  \<open>[12.3, 844]\<close>, the fixed-range render reports maximum 2 and minimum 1. The image range
  \<open>[0, 600]\<close> and the ticks \<^verbatim>\<open>linspace(0, 600, 8)\<close> are as described.
\<close>

theorem fixed_render_reports_stale_statistics:
  "np_min example_grid = Inr 12.3 \<and> np_max example_grid = Inr 844
   \<and> actual_data reloaded_kernel = Some example_grid
   \<and> (\<exists>k' f im c. challenge_III reloaded_kernel = (None, k')
         \<and> max_slope k' = Some 2 \<and> min_slope k' = Some 1
         \<and> Stat ''Maximum slope value: '' (Num 2) \<in> set (stdout k')
         \<and> Stat ''Minimum slope value: '' (Num 1) \<in> set (stdout k')
         \<and> fig k' = Some f \<and> image f = Some im
         \<and> im_vmin im = Some 0 \<and> im_vmax im = Some 600
         \<and> cbar f = Some c \<and> cb_ticks c = Some (linspace 0 600 8))"
proof -
  have "np_min example_grid = Inr 12.3" "np_max example_grid = Inr 844"
    by (simp_all add: np_min_def np_max_def example_grid_def)
  moreover have "shape1 example_grid \<noteq> 0"
    by (simp add: example_grid_def)
  note challenge_III_run[OF reloaded_kernel_facts(2) this reloaded_kernel_facts(3)
      example_bounds_facts(1,2) reloaded_kernel_facts(4,5)]
  ultimately show ?thesis
    by (simp add: reloaded_kernel_facts)
qed

text \<open>
  Claim C9. Three kernels that hold the same \<^verbatim>\<open>data_file\<close>, the same grid and the same
  bounds give three different reports from the Challenge III cell: after the load cell
  alone \<^verbatim>\<open>vmax\<close> is unbound, the cell prints the \<^verbatim>\<open>NameError\<close> message and reports no
  statistics; after an earlier session it reports that session's 2 and 1; after
  Challenge II on the same grid it reports 844 and 12.3.
\<close>

theorem fixed_render_depends_on_leftover_state:
  "data_file loaded_kernel = data_file reloaded_kernel
   \<and> actual_data loaded_kernel = actual_data reloaded_kernel
   \<and> metadata loaded_kernel = metadata reloaded_kernel
   \<and> fst (challenge_III loaded_kernel) = None
   \<and> max_slope (snd (challenge_III loaded_kernel)) = None
   \<and> min_slope (snd (challenge_III loaded_kernel)) = None
   \<and> last (stdout (snd (challenge_III loaded_kernel)))
       = Text (error_message ''subregion.npz'' (NameError ''vmax''))
   \<and> fst (challenge_III reloaded_kernel) = None
   \<and> max_slope (snd (challenge_III reloaded_kernel)) = Some 2
   \<and> min_slope (snd (challenge_III reloaded_kernel)) = Some 1
   \<and> fst (challenge_III (snd (challenge_II loaded_kernel))) = None
   \<and> max_slope (snd (challenge_III (snd (challenge_II loaded_kernel)))) = Some 844
   \<and> min_slope (snd (challenge_III (snd (challenge_II loaded_kernel)))) = Some 12.3"
proof -
  have s: "shape1 example_grid \<noteq> 0"
    by (simp add: example_grid_def)
  note a = challenge_III_vmax_unbound[OF loaded_kernel_facts(2) s loaded_kernel_facts(3)
      example_bounds_facts(1,2) loaded_kernel_facts(5) loaded_kernel_facts(1)]
  note b = challenge_III_run[OF reloaded_kernel_facts(2) s reloaded_kernel_facts(3)
      example_bounds_facts(1,2) reloaded_kernel_facts(4,5)]
  note c = challenge_II_run[OF loaded_kernel_facts(2) example_grid_facts(3) s
      loaded_kernel_facts(3) example_bounds_facts(1,2) example_grid_span]
  let ?k2 = "snd (challenge_II loaded_kernel)"
  have k2: "actual_data ?k2 = Some example_grid" "metadata ?k2 = Some example_bounds"
      "vmin ?k2 = Some 12.3" "vmax ?k2 = Some 844"
    by (simp_all add: c loaded_kernel_facts)
  note d = challenge_III_run[OF k2(1) s k2(2) example_bounds_facts(1,2) k2(3,4)]
  show ?thesis
    by (simp add: a b d loaded_kernel_facts reloaded_kernel_facts)
qed

end
